theory Spec2Isabelle
  imports Complex_Main "HOL-Library.Multiset"
begin

section \<open>JavaScript values used by the dashboard\<close>

text \<open>
  A JavaScript object with string keys is an association list in insertion order:
  assigning to an existing key replaces its value in place, assigning to a new key
  appends it (the order \<open>Object.values\<close> and \<open>Object.entries\<close> enumerate, for the
  non-numeric keys this data uses). A property read is \<open>map_of\<close>; \<open>None\<close> is
  \<open>undefined\<close>, unless the key names a property every object inherits (see
  \<open>inheritedKeys\<close> below).

  A JavaScript number is an IEEE 754 double. It is modelled by the real number it
  denotes (scores and ranks, which are integers, by an \<open>int\<close>); \<open>NaN\<close>, where the code can
  produce it, is \<open>None\<close>. The arithmetic of the host on doubles rounds its results, so
  the sum, product and quotient the code computes are not the exact ones: they are
  parameters of the model, the record \<open>arith\<close>. \<open>Math.round\<close> and \<open>toFixed\<close> are exact
  functions of the double they are given.
\<close>

record arith =
  fadd :: "real \<Rightarrow> real \<Rightarrow> real"
  fmul :: "real \<Rightarrow> real \<Rightarrow> real"
  fdiv :: "real \<Rightarrow> real \<Rightarrow> real"



text \<open>
  The names every object inherits from \<open>Object.prototype\<close>: reading such a property of
  an object that has no own property of that name gives the inherited function (or,
  for \<open>__proto__\<close>, the prototype), which is truthy.
\<close>

definition inheritedKeys :: "string list" where
  "inheritedKeys =
     [''constructor'', ''__defineGetter__'', ''__defineSetter__'', ''hasOwnProperty'',
      ''__lookupGetter__'', ''__lookupSetter__'', ''isPrototypeOf'', ''propertyIsEnumerable'',
      ''toString'', ''valueOf'', ''__proto__'', ''toLocaleString'']"

text \<open>The exceptions the sources can raise.\<close>

datatype js_error = TypeError

type_synonym 'v jsobj = "(string \<times> 'v) list"

fun obj_set :: "string \<Rightarrow> 'v \<Rightarrow> 'v jsobj \<Rightarrow> 'v jsobj" where
  "obj_set k v [] = [(k, v)]"
| "obj_set k v ((k', v') # r) = (if k = k' then (k, v) # r else (k', v') # obj_set k v r)"

text \<open>\<open>Math.round(x)\<close>: the integer nearest to \<open>x\<close>, halves rounded up.\<close>

definition Math_round :: "real \<Rightarrow> int" where
  "Math_round x = \<lfloor>x + 1 / 2\<rfloor>"

text \<open>
  \<open>x.toFixed(d)\<close>, as the number its decimal string denotes: the nearest multiple
  of \<open>10^-d\<close>, halves rounded away from zero.
\<close>

definition toFixed :: "nat \<Rightarrow> real \<Rightarrow> real" where
  "toFixed d x =
     (if x < 0 then - (real_of_int \<lfloor>(- x) * 10 ^ d + 1 / 2\<rfloor> / 10 ^ d)
      else real_of_int \<lfloor>x * 10 ^ d + 1 / 2\<rfloor> / 10 ^ d)"

text \<open>\<open>v || 0\<close> on a property that holds a number or is \<open>undefined\<close>.\<close>

fun or0 :: "int option \<Rightarrow> int" where
  "or0 None = 0"
| "or0 (Some v) = (if v = 0 then 0 else v)"

text \<open>\<open>xs.reduce((s, e) => s + f(e), 0)\<close>, each sum being the host's.\<close>

definition reduceSum :: "arith \<Rightarrow> ('a \<Rightarrow> real) \<Rightarrow> 'a list \<Rightarrow> real" where
  "reduceSum A f xs = fold (\<lambda>e s. fadd A s (f e)) xs 0"

text \<open>
  \<open>Array.prototype.sort(cmp)\<close> is stable; \<open>le a b\<close> stands for \<open>cmp(a, b) <= 0\<close>.
  It is modelled by a stable insertion sort: an element moves right only past
  elements that must come strictly before it.
\<close>

fun insert_cmp :: "('a \<Rightarrow> 'a \<Rightarrow> bool) \<Rightarrow> 'a \<Rightarrow> 'a list \<Rightarrow> 'a list" where
  "insert_cmp le x [] = [x]"
| "insert_cmp le x (y # ys) = (if le x y then x # y # ys else y # insert_cmp le x ys)"

definition sort_cmp :: "('a \<Rightarrow> 'a \<Rightarrow> bool) \<Rightarrow> 'a list \<Rightarrow> 'a list" where
  "sort_cmp le xs = foldr (insert_cmp le) xs []"

text \<open>
  A comparator is consistent on the elements being sorted when any two of them are
  comparable and the comparison is transitive; the language fixes the order
  \<open>sort\<close> produces only for such comparators.
\<close>

definition consistent_on :: "'a set \<Rightarrow> ('a \<Rightarrow> 'a \<Rightarrow> bool) \<Rightarrow> bool" where
  "consistent_on A le =
     ((\<forall>a\<in>A. \<forall>b\<in>A. le a b \<or> le b a) \<and>
      (\<forall>a\<in>A. \<forall>b\<in>A. \<forall>c\<in>A. le a b \<longrightarrow> le b c \<longrightarrow> le a c))"

section \<open>Data model\<close>

record country =
  c_id :: string
  c_name :: string
  c_scores :: "int jsobj"

record pillar =
  p_id :: string
  name_key :: string
  desc_key :: string
  icon :: string
  color :: string
  sources :: "string list"

record economics_record =
  gdp :: real
  gdp_per_capita :: real
  gni_per_capita :: real
  inflation :: real
  unemployment :: real
  public_debt_pct :: real
  revenue :: "real jsobj"
  expenditure :: "real jsobj"

record politics_record =
  regime :: string
  system :: string
  conflict_status :: string
  democracy_score :: real
  corruption_rank :: int
  press_freedom_rank :: int

section \<open>The Data module\<close>

text \<open>
  Modelled from the spec: the module \<open>Data\<close> (the dataset store and its aggregation
  functions) is called by the sources but is not among them. The store holds the four
  collections of the dataset in declaration order.
\<close>

record data_store =
  countries :: "country list"
  pillars :: "pillar list"
  economics :: "economics_record jsobj"
  politics :: "politics_record jsobj"

text \<open>
  Modelled from the spec: the lookups \<open>getCountry\<close>, \<open>getPillar\<close>, \<open>getEconomics\<close>,
  \<open>getPolitics\<close> of the missing module return the record or an explicit absent
  result (\<open>None\<close>, falsy for the callers' \<open>if (!x)\<close>).
\<close>

definition getCountry :: "data_store \<Rightarrow> string \<Rightarrow> country option" where
  "getCountry st k = find (\<lambda>c. c_id c = k) (countries st)"

text \<open>Modelled from the spec: \<open>getPillar(id)\<close> of the missing module, likewise.\<close>

definition getPillar :: "data_store \<Rightarrow> string \<Rightarrow> pillar option" where
  "getPillar st k = find (\<lambda>p. p_id p = k) (pillars st)"

text \<open>
  Modelled from the spec: \<open>getEconomics(id)\<close> of the missing module; the economics
  records are keyed by country id.
\<close>

definition getEconomics :: "data_store \<Rightarrow> string \<Rightarrow> economics_record option" where
  "getEconomics st k = map_of (economics st) k"

text \<open>Modelled from the spec: \<open>getPolitics(id)\<close> of the missing module, likewise.\<close>

definition getPolitics :: "data_store \<Rightarrow> string \<Rightarrow> politics_record option" where
  "getPolitics st k = map_of (politics st) k"

text \<open>
  Modelled from the spec: \<open>getAllCountries()\<close> of the missing module returns the whole
  collection, in declaration order.
\<close>

definition getAllCountries :: "data_store \<Rightarrow> country list" where
  "getAllCountries st = countries st"

text \<open>Modelled from the spec: \<open>getPillars()\<close> of the missing module, likewise.\<close>

definition getPillars :: "data_store \<Rightarrow> pillar list" where
  "getPillars st = pillars st"

text \<open>
  Modelled from the spec: \<open>getAllPolitics()\<close> of the missing module, an object keyed by
  country id (the callers take its \<open>Object.values\<close> and \<open>Object.entries\<close>).
\<close>

definition getAllPolitics :: "data_store \<Rightarrow> politics_record jsobj" where
  "getAllPolitics st = politics st"

text \<open>
  The module \<open>I18n\<close> and the host's \<open>String.prototype.localeCompare\<close> are outside the
  sources as well; they are parameters of the model: the active language, the display
  name of a country in it, and the collation \<open>a.localeCompare(b, lang)\<close>.
\<close>

record i18n =
  getLang :: string
  getCountryName :: "country \<Rightarrow> string"
  localeCompare :: "string \<Rightarrow> string \<Rightarrow> string \<Rightarrow> int"

text \<open>The arithmetic mean of a list of scores, as \<open>sum / length\<close>.\<close>

definition mean :: "int list \<Rightarrow> real" where
  "mean vs = real_of_int (sum_list vs) / real (length vs)"

text \<open>
  Modelled from the spec: \<open>overallScore(country)\<close> (exposed as \<open>Data.getOverallScore\<close>)
  is the mean of all pillar scores present in \<open>country.scores\<close>, rounded to the nearest
  integer, and 0 for a country with no pillar score.
\<close>

definition overallScore :: "country \<Rightarrow> int" where
  "overallScore c =
     (let vs = map snd (c_scores c) in if vs = [] then 0 else Math_round (mean vs))"

text \<open>
  Modelled from the spec: \<open>globalAverages()\<close> gives, for each pillar, the rounded mean
  of that pillar's score across the countries that have a score for it, and 0 for a
  pillar that no country scores. \<open>pillarScores\<close> are the scores of one pillar in the
  countries that have one.
\<close>

definition pillarScores :: "data_store \<Rightarrow> string \<Rightarrow> int list" where
  "pillarScores st P = List.map_filter (\<lambda>c. map_of (c_scores c) P) (countries st)"

text \<open>
  Modelled from the spec: the entry of \<open>globalAverages()\<close> for one pillar, the rounded
  mean of the scores above and 0 when there is none.
\<close>

definition globalAverage :: "data_store \<Rightarrow> string \<Rightarrow> int" where
  "globalAverage st P =
     (let vs = pillarScores st P in if vs = [] then 0 else Math_round (mean vs))"

text \<open>
  Modelled from the spec: \<open>globalAverages()\<close> (exposed as \<open>Data.getGlobalAverages\<close>), the
  object of these averages keyed by pillar id, for each pillar of the store.
\<close>

definition getGlobalAverages :: "data_store \<Rightarrow> int jsobj" where
  "getGlobalAverages st = map (\<lambda>p. (p_id p, globalAverage st (p_id p))) (pillars st)"

text \<open>
  Modelled from the spec: \<open>ranking(pillarIdOrOverall)\<close> builds one entry
  \<open>{id, name, score}\<close> per country, the score being \<open>overallScore\<close> for the sentinel
  \<open>overall\<close> and \<open>country.scores[pillarId] ?? 0\<close> otherwise, and sorts the entries by
  score descending, ties by localized name ascending under the locale's collation.
\<close>

record ranking_entry =
  r_id :: string
  r_name :: string
  r_score :: int

text \<open>
  Modelled from the spec: the score of a ranking entry, \<open>overallScore\<close> for the sentinel
  and \<open>country.scores[pillarId] ?? 0\<close> otherwise.
\<close>

definition rankingScore :: "string \<Rightarrow> country \<Rightarrow> int" where
  "rankingScore pillarId c =
     (if pillarId = ''overall'' then overallScore c
      else (case map_of (c_scores c) pillarId of None \<Rightarrow> 0 | Some v \<Rightarrow> v))"

text \<open>Modelled from the spec: the ranking entry \<open>{id, name, score}\<close> of a country.\<close>

definition rankingEntry :: "i18n \<Rightarrow> string \<Rightarrow> country \<Rightarrow> ranking_entry" where
  "rankingEntry L pillarId c =
     \<lparr>r_id = c_id c, r_name = getCountryName L c, r_score = rankingScore pillarId c\<rparr>"

text \<open>
  Modelled from the spec: the order of the ranking, as the comparator's \<open>cmp(a, b) <= 0\<close>:
  score descending, ties by localized name ascending under the locale's collation.
\<close>

definition rankingBefore :: "i18n \<Rightarrow> ranking_entry \<Rightarrow> ranking_entry \<Rightarrow> bool" where
  "rankingBefore L a b =
     (r_score b < r_score a \<or>
      (r_score a = r_score b \<and> localeCompare L (r_name a) (r_name b) (getLang L) \<le> 0))"

text \<open>
  Modelled from the spec: \<open>ranking(pillarIdOrOverall)\<close> (exposed as \<open>Data.getRanking\<close>),
  the countries' entries sorted in that order.
\<close>

definition getRanking :: "i18n \<Rightarrow> data_store \<Rightarrow> string \<Rightarrow> ranking_entry list" where
  "getRanking L st pillarId =
     sort_cmp (rankingBefore L) (map (rankingEntry L pillarId) (countries st))"

section \<open>app.js: the index page\<close>

text \<open>
  A render function assigns a template string to \<open>container.innerHTML\<close>. The markup is
  fixed by the template; the model keeps the values the template interpolates, in the
  order it lays them out. \<open>Blank\<close> is the empty string.
\<close>

datatype 'v html = Blank | Rendered 'v

subsection \<open>renderGovernanceBar\<close>

definition regimeKeys :: "string list" where
  "regimeKeys = [''full_democracy'', ''flawed_democracy'', ''hybrid_regime'', ''authoritarian'']"

text \<open>
  A value of the objects \<open>regimes\<close> and \<open>systems\<close>: a count, or a string. The string
  arises when the key names an inherited property: \<open>(m[k] || 0) + 1\<close> then appends
  \<open>1\<close> to the text of the inherited value; which string it is, is not modelled.
\<close>

datatype jsnum = Num nat | Text

definition regimes_init :: "jsnum jsobj" where
  "regimes_init = map (\<lambda>k. (k, Num 0)) regimeKeys"

text \<open>
  \<open>m[k] = (m[k] || 0) + 1\<close>. An assignment of a string to \<open>__proto__\<close> changes
  nothing.
\<close>

definition tally :: "string \<Rightarrow> jsnum jsobj \<Rightarrow> jsnum jsobj" where
  "tally k m =
     (case map_of m k of
        Some (Num n) \<Rightarrow> obj_set k (Num (n + 1)) m
      | Some Text \<Rightarrow> obj_set k Text m
      | None \<Rightarrow>
          if k \<in> set inheritedKeys then (if k = ''__proto__'' then m else obj_set k Text m)
          else obj_set k (Num 1) m)"


text \<open>The \<open>forEach\<close> over the entries, filling \<open>regimes\<close> and \<open>systems\<close>.\<close>

definition governanceTallies :: "politics_record list \<Rightarrow> jsnum jsobj \<times> jsnum jsobj" where
  "governanceTallies entries =
     fold (\<lambda>p (regimes, systems). (tally (regime p) regimes, tally (system p) systems))
       entries (regimes_init, [])"

text \<open>
  \<open>(a, b) => b[1] - a[1]\<close>, as \<open>cmp(a, b) <= 0\<close>: the difference of two counts; with a
  string on either side it is \<open>NaN\<close>, which \<open>sort\<close> takes for 0.
\<close>

definition systemsBefore :: "string \<times> jsnum \<Rightarrow> string \<times> jsnum \<Rightarrow> bool" where
  "systemsBefore a b =
     (case (snd a, snd b) of (Num x, Num y) \<Rightarrow> int y - int x \<le> 0 | _ \<Rightarrow> True)"

text \<open>
  \<open>Object.entries(systems).sort(...).slice(0, 4)\<close> (the source's comment announces three).
  The language leaves the order to the implementation when the comparator is not
  consistent, which can only happen with a string among the values: the model gives
  \<open>None\<close> then.
\<close>

definition topSystems :: "jsnum jsobj \<Rightarrow> (string \<times> jsnum) list option" where
  "topSystems systems =
     (if consistent_on (set systems) systemsBefore
      then Some (take 4 (sort_cmp systemsBefore systems)) else None)"

text \<open>
  \<open>(regimes[k] / total * 100).toFixed(1)\<close>, the quotient and the product being the
  host's; had \<open>regimes[k]\<close> not been a number the result would be \<open>NaN\<close>.
\<close>

definition regimePct :: "arith \<Rightarrow> jsnum option \<Rightarrow> nat \<Rightarrow> real option" where
  "regimePct A v t =
     (case v of
        Some (Num n) \<Rightarrow> Some (toFixed 1 (fmul A (fdiv A (real n) (real t)) 100))
      | _ \<Rightarrow> None)"

record governance_view =
  barSegments :: "(string \<times> real option) list"
  legendItems :: "(string \<times> jsnum option) list"
  systemTags :: "(string \<times> jsnum) list option"
  avgDemocracy :: real
  avgCorruption :: int
  avgPress :: int

definition governanceBarHtml :: "arith \<Rightarrow> politics_record jsobj \<Rightarrow> governance_view html" where
  "governanceBarHtml A pol =
     (let entries = map snd pol in
      if entries = [] then Blank
      else
        let (regimes, systems) = governanceTallies entries;
            total = length entries
        in Rendered
          \<lparr>barSegments = map (\<lambda>k. (k, regimePct A (map_of regimes k) total)) regimeKeys,
           legendItems = map (\<lambda>k. (k, map_of regimes k)) regimeKeys,
           systemTags = topSystems systems,
           avgDemocracy =
             toFixed 1 (fdiv A (reduceSum A democracy_score entries) (real total)),
           avgCorruption =
             Math_round (fdiv A (reduceSum A (\<lambda>p. real_of_int (corruption_rank p)) entries)
               (real total)),
           avgPress =
             Math_round (fdiv A (reduceSum A (\<lambda>p. real_of_int (press_freedom_rank p)) entries)
               (real total))\<rparr>)"

subsection \<open>renderPeaceBar\<close>

definition statusKeys :: "string list" where
  "statusKeys = [''peace'', ''tension'', ''minor_conflict'', ''major_conflict'', ''war'']"

definition conflicts_init :: "string list jsobj" where
  "conflicts_init = map (\<lambda>k. (k, [])) statusKeys"

text \<open>
  \<open>conflicts[s] = conflicts[s] || []; conflicts[s].push(id)\<close>: the two statements of
  the loop body. For a status that names an inherited property and is no own property
  of \<open>conflicts\<close>, \<open>conflicts[s]\<close> is the inherited value, which is truthy and has no
  \<open>push\<close>: the call throws a \<open>TypeError\<close>.
\<close>

definition conflictPush ::
  "string \<times> politics_record \<Rightarrow> string list jsobj \<Rightarrow> js_error + string list jsobj" where
  "conflictPush e m =
     (let s = conflict_status (snd e) in
      if map_of m s = None \<and> s \<in> set inheritedKeys then Inl TypeError
      else
        let m1 = obj_set s (case map_of m s of None \<Rightarrow> [] | Some ids \<Rightarrow> ids) m
        in Inr (obj_set s ((case map_of m1 s of None \<Rightarrow> [] | Some ids \<Rightarrow> ids) @ [fst e]) m1))"

text \<open>The \<open>forEach\<close> over the entries; an exception ends it.\<close>

fun conflictLoop ::
  "(string \<times> politics_record) list \<Rightarrow> string list jsobj \<Rightarrow> js_error + string list jsobj" where
  "conflictLoop [] m = Inr m"
| "conflictLoop (e # es) m =
     (case conflictPush e m of Inl err \<Rightarrow> Inl err | Inr m' \<Rightarrow> conflictLoop es m')"

definition conflictTally :: "politics_record jsobj \<Rightarrow> js_error + string list jsobj" where
  "conflictTally entries = conflictLoop entries conflicts_init"

text \<open>
  \<open>conflicts[k]\<close> where the code reads its \<open>length\<close> or maps over it; the keys read
  are those of \<open>statusKeys\<close>, which the object holds from its initialisation on.
\<close>

definition idsOf :: "string list jsobj \<Rightarrow> string \<Rightarrow> string list" where
  "idsOf m k = (case map_of m k of None \<Rightarrow> [] | Some ids \<Rightarrow> ids)"

text \<open>
  \<open>Math.round(countries.reduce((s, c) => s + (c.scores[P] || 0), 0) / countries.length)\<close>;
  with no country the quotient is \<open>0 / 0 = NaN\<close>.
\<close>

definition avgPillarInline :: "arith \<Rightarrow> country list \<Rightarrow> string \<Rightarrow> int option" where
  "avgPillarInline A cs P =
     (if cs = [] then None
      else Some (Math_round
        (fdiv A (reduceSum A (\<lambda>c. real_of_int (or0 (map_of (c_scores c) P))) cs)
           (real (length cs)))))"

record status_row =
  st_key :: string
  st_count :: nat
  st_names :: "string list"
  st_more :: nat

text \<open>
  One row of the breakdown: up to four names are listed whole, a longer list shows
  three and the number of the others.
\<close>

definition statusRow :: "i18n \<Rightarrow> data_store \<Rightarrow> string list jsobj \<Rightarrow> string \<Rightarrow> status_row" where
  "statusRow L st conflicts k =
     (let names = map (\<lambda>i. case getCountry st i of Some c \<Rightarrow> getCountryName L c | None \<Rightarrow> i)
                    (idsOf conflicts k)
      in \<lparr>st_key = k, st_count = length (idsOf conflicts k),
          st_names = (if length names \<le> 4 then names else take 3 names),
          st_more = (if length names \<le> 4 then 0 else length names - 3)\<rparr>)"

record peace_view =
  atPeace :: nat
  inConflict :: int
  avgSecurity :: "int option"
  avgGovernance :: "int option"
  statusItems :: "status_row list"

text \<open>
  The content of the peace bar, or the exception of the loop. The breakdown has a row
  for the statuses that pass \<open>statusKeys.filter(k => conflicts[k].length > 0)\<close>.
\<close>

definition peaceBarHtml :: "arith \<Rightarrow> i18n \<Rightarrow> data_store \<Rightarrow> js_error + peace_view html" where
  "peaceBarHtml A L st =
     (let pol = getAllPolitics st; cs = getAllCountries st in
      if pol = [] then Inr Blank
      else
        case conflictTally pol of
          Inl err \<Rightarrow> Inl err
        | Inr conflicts \<Rightarrow>
            let total = length pol;
                nPeace = length (idsOf conflicts ''peace'')
            in Inr (Rendered
              \<lparr>atPeace = nPeace,
               inConflict = int total - int nPeace,
               avgSecurity = avgPillarInline A cs ''security'',
               avgGovernance = avgPillarInline A cs ''governance'',
               statusItems =
                 map (statusRow L st conflicts)
                   (filter (\<lambda>k. length (idsOf conflicts k) > 0) statusKeys)\<rparr>))"

text \<open>The statuses that have a row in what the peace bar shows.\<close>

definition shownStatuses :: "js_error + peace_view html \<Rightarrow> string list" where
  "shownStatuses r = (case r of Inr (Rendered v) \<Rightarrow> map st_key (statusItems v) | _ \<Rightarrow> [])"

subsection \<open>renderGlobalEconBar\<close>

text \<open>
  \<open>countries.map(c => Data.getEconomics(c.id)).filter(Boolean)\<close>: the records of the
  countries that have one, in the countries' order; an absent result is falsy and
  dropped, a record is an object and kept.
\<close>

definition allEcon :: "data_store \<Rightarrow> country list \<Rightarrow> economics_record list" where
  "allEcon st cs = List.map_filter (\<lambda>c. getEconomics st (c_id c)) cs"

record econ_aggregates =
  n_econ :: nat
  totalGdp :: real
  avgInflation :: real
  avgUnemployment :: real
  avgDebt :: real
  avgGdpCap :: int

text \<open>
  The five constants computed from \<open>allEcon\<close>; every sum and quotient is the host's, and
  \<open>toFixed(1)\<close> and \<open>Math.round\<close> are applied to the double that results.
\<close>

definition econAggregates :: "arith \<Rightarrow> economics_record list \<Rightarrow> econ_aggregates" where
  "econAggregates A es =
     (let n = length es in
      \<lparr>n_econ = n,
       totalGdp = reduceSum A gdp es,
       avgInflation = toFixed 1 (fdiv A (reduceSum A inflation es) (real n)),
       avgUnemployment = toFixed 1 (fdiv A (reduceSum A unemployment es) (real n)),
       avgDebt = toFixed 1 (fdiv A (reduceSum A public_debt_pct es) (real n)),
       avgGdpCap = Math_round (fdiv A (reduceSum A gdp_per_capita es) (real n))\<rparr>)"

text \<open>
  A formatted amount: \<open>Scaled v\<close> is \<open>v\<close> with the unit suffix of the next magnitude
  (the value divided by 1000), \<open>Plain v\<close> the value itself.
\<close>

datatype amount = Scaled real | Plain real

definition fmtT :: "arith \<Rightarrow> real \<Rightarrow> amount" where
  "fmtT A v = Scaled (toFixed 1 (fdiv A v 1000))"

definition fmtK_int :: "arith \<Rightarrow> int \<Rightarrow> amount" where
  "fmtK_int A v =
     (if v \<ge> 1000 then Scaled (toFixed 1 (fdiv A (real_of_int v) 1000))
      else Plain (real_of_int v))"

record econ_bar_view =
  gdp_total :: amount
  avg_gdp_capita :: amount
  avg_inflation :: real
  avg_unemployment :: real
  avg_debt :: real

definition globalEconBarHtml :: "arith \<Rightarrow> data_store \<Rightarrow> econ_bar_view html" where
  "globalEconBarHtml A st =
     (let es = allEcon st (getAllCountries st) in
      if es = [] then Blank
      else
        let a = econAggregates A es in
        Rendered
          \<lparr>gdp_total = fmtT A (totalGdp a),
           avg_gdp_capita = fmtK_int A (avgGdpCap a),
           avg_inflation = avgInflation a,
           avg_unemployment = avgUnemployment a,
           avg_debt = avgDebt a\<rparr>)"

subsection \<open>renderOverviewCards and renderPillarCards\<close>

record card =
  card_pillar :: pillar
  card_avg :: int

text \<open>\<open>avgs[p.id] || 0\<close>\<close>

definition pillarCard :: "int jsobj \<Rightarrow> pillar \<Rightarrow> card" where
  "pillarCard avgs p = \<lparr>card_pillar = p, card_avg = or0 (map_of avgs (p_id p))\<rparr>"

definition overviewCardsHtml :: "data_store \<Rightarrow> card list" where
  "overviewCardsHtml st =
     (let avgs = getGlobalAverages st; ps = getPillars st in
      map (pillarCard avgs) (take 6 ps))"

definition pillarCardsHtml :: "data_store \<Rightarrow> card list" where
  "pillarCardsHtml st =
     (let ps = getPillars st; avgs = getGlobalAverages st in
      map (pillarCard avgs) ps)"

subsection \<open>The page: the store and the five containers of the index page\<close>

text \<open>
  A container is \<open>None\<close> when \<open>document.getElementById\<close> finds no such element, and
  holds its \<open>innerHTML\<close> otherwise. Every render function returns at once when its
  container is missing, and replaces the container's content otherwise.
\<close>

record index_page =
  store :: data_store
  governance_bar :: "governance_view html option"
  peace_bar :: "peace_view html option"
  global_econ_bar :: "econ_bar_view html option"
  overview_cards :: "card list option"
  pillar_cards :: "card list option"

definition renderGovernanceBar :: "arith \<Rightarrow> index_page \<Rightarrow> index_page" where
  "renderGovernanceBar A pg =
     (case governance_bar pg of
        None \<Rightarrow> pg
      | Some _ \<Rightarrow> pg\<lparr>governance_bar := Some (governanceBarHtml A (getAllPolitics (store pg)))\<rparr>)"

text \<open>
  \<open>renderPeaceBar\<close> gives the page it leaves and the exception it raised, if any; an
  exception leaves the container as it was.
\<close>

definition renderPeaceBar :: "arith \<Rightarrow> i18n \<Rightarrow> index_page \<Rightarrow> index_page \<times> js_error option" where
  "renderPeaceBar A L pg =
     (case peace_bar pg of
        None \<Rightarrow> (pg, None)
      | Some _ \<Rightarrow>
          (case peaceBarHtml A L (store pg) of
             Inl err \<Rightarrow> (pg, Some err)
           | Inr h \<Rightarrow> (pg\<lparr>peace_bar := Some h\<rparr>, None)))"

definition renderGlobalEconBar :: "arith \<Rightarrow> index_page \<Rightarrow> index_page" where
  "renderGlobalEconBar A pg =
     (case global_econ_bar pg of
        None \<Rightarrow> pg
      | Some _ \<Rightarrow> pg\<lparr>global_econ_bar := Some (globalEconBarHtml A (store pg))\<rparr>)"

definition renderOverviewCards :: "index_page \<Rightarrow> index_page" where
  "renderOverviewCards pg =
     (case overview_cards pg of
        None \<Rightarrow> pg
      | Some _ \<Rightarrow> pg\<lparr>overview_cards := Some (overviewCardsHtml (store pg))\<rparr>)"

definition renderPillarCards :: "index_page \<Rightarrow> index_page" where
  "renderPillarCards pg =
     (case pillar_cards pg of
        None \<Rightarrow> pg
      | Some _ \<Rightarrow> pg\<lparr>pillar_cards := Some (pillarCardsHtml (store pg))\<rparr>)"

text \<open>\<open>renderIndex\<close> calls the five in turn; an exception of the second ends it there.\<close>

definition renderIndex :: "arith \<Rightarrow> i18n \<Rightarrow> index_page \<Rightarrow> index_page \<times> js_error option" where
  "renderIndex A L pg =
     (case renderPeaceBar A L (renderGovernanceBar A pg) of
        (pg2, Some err) \<Rightarrow> (pg2, Some err)
      | (pg2, None) \<Rightarrow>
          (renderPillarCards (renderOverviewCards (renderGlobalEconBar A pg2)), None))"

section \<open>app.js: the country page\<close>

text \<open>
  \<open>Data.getScoreLabel\<close> (the presentation bucket of a score) belongs to the missing
  module and its thresholds are not given; it is a parameter \<open>label\<close> of the page.
\<close>

definition fmtB :: "arith \<Rightarrow> real \<Rightarrow> amount" where
  "fmtB A v =
     (if v \<ge> 1000 then Scaled (toFixed 1 (fdiv A v 1000)) else Plain (toFixed 0 v))"

definition fmtK :: "arith \<Rightarrow> real \<Rightarrow> amount" where
  "fmtK A v =
     (if v \<ge> 1000 then Scaled (toFixed 1 (fdiv A v 1000)) else Plain (toFixed 0 v))"

definition revKeys :: "string list" where
  "revKeys = [''taxes'', ''social_contributions'', ''grants'', ''other'']"

definition expKeys :: "string list" where
  "expKeys = [''social_protection'', ''health'', ''education'', ''defense'',
     ''infrastructure'', ''public_services'', ''debt_service'', ''other'']"

record econ_view =
  ev_gdp :: amount
  ev_gdp_per_capita :: amount
  ev_public_debt :: real
  ev_unemployment :: real
  ev_inflation :: real
  ev_gni_per_capita :: amount
  revLegend :: "(string \<times> real option) list"
  expLegend :: "(string \<times> real option) list"

text \<open>
  \<open>renderEconomicDashboard\<close>: the content of the \<open>econ-dashboard\<close> element, which the
  country page's own template creates. The chart widgets drawn afterwards belong to
  the charting library and are left out.
\<close>

definition economicDashboardHtml :: "arith \<Rightarrow> data_store \<Rightarrow> country \<Rightarrow> econ_view html" where
  "economicDashboardHtml A st c =
     (case getEconomics st (c_id c) of
        None \<Rightarrow> Blank
      | Some econ \<Rightarrow> Rendered
          \<lparr>ev_gdp = fmtB A (gdp econ),
           ev_gdp_per_capita = fmtK A (gdp_per_capita econ),
           ev_public_debt = public_debt_pct econ,
           ev_unemployment = unemployment econ,
           ev_inflation = inflation econ,
           ev_gni_per_capita = fmtK A (gni_per_capita econ),
           revLegend = map (\<lambda>k. (k, map_of (revenue econ) k)) revKeys,
           expLegend = map (\<lambda>k. (k, map_of (expenditure econ) k)) expKeys\<rparr>)"

text \<open>\<open>xs.findIndex(P)\<close>: the first index whose element satisfies \<open>P\<close>, or \<open>-1\<close>.\<close>

fun findIndex :: "('a \<Rightarrow> bool) \<Rightarrow> 'a list \<Rightarrow> int" where
  "findIndex P [] = - 1"
| "findIndex P (x # xs) =
     (if P x then 0 else (let i = findIndex P xs in if i < 0 then - 1 else i + 1))"

record pillar_bar =
  pb_pillar :: pillar
  pb_score :: int
  pb_label :: string

record country_view =
  cv_name :: string
  cv_overall :: int
  cv_overall_label :: string
  cv_rank :: int
  cv_total :: nat
  cv_pillarBars :: "pillar_bar list"
  cv_econ :: "econ_view html"

datatype country_html = NotFound | CountryPage country_view

text \<open>
  \<open>uid\<close> is \<open>params.get('id')\<close>, \<open>None\<close> when the URL has no such parameter; no
  country has the id \<open>null\<close>.
\<close>

definition countryHtml ::
  "arith \<Rightarrow> i18n \<Rightarrow> (int \<Rightarrow> string) \<Rightarrow> data_store \<Rightarrow> string option \<Rightarrow> country_html" where
  "countryHtml A L label st uid =
     (case (case uid of None \<Rightarrow> None | Some k \<Rightarrow> getCountry st k) of
        None \<Rightarrow> NotFound
      | Some c \<Rightarrow>
          let overall = overallScore c;
              ranking = getRanking L st ''overall'';
              rank = findIndex (\<lambda>r. Some (r_id r) = uid) ranking + 1;
              ps = getPillars st;
              pillarBars =
                map (\<lambda>p. let score = or0 (map_of (c_scores c) (p_id p))
                          in \<lparr>pb_pillar = p, pb_score = score, pb_label = label score\<rparr>) ps
          in CountryPage
            \<lparr>cv_name = getCountryName L c,
             cv_overall = overall,
             cv_overall_label = label overall,
             cv_rank = rank,
             cv_total = length ranking,
             cv_pillarBars = pillarBars,
             cv_econ = economicDashboardHtml A st c\<rparr>)"

definition renderCountry ::
  "arith \<Rightarrow> i18n \<Rightarrow> (int \<Rightarrow> string) \<Rightarrow> data_store \<Rightarrow> string option \<Rightarrow>
   country_html option \<Rightarrow> country_html option" where
  "renderCountry A L label st uid container =
     (case container of None \<Rightarrow> None | Some _ \<Rightarrow> Some (countryHtml A L label st uid))"

section \<open>app.js: the pillar page\<close>

record rank_row =
  rr_num :: nat
  rr_id :: string
  rr_name :: string
  rr_score :: int
  rr_label :: string

record pillar_view =
  pv_name_key :: string
  pv_icon :: string
  pv_desc_key :: "string option"
  pv_overall_active :: bool
  pv_tabs :: "(pillar \<times> bool) list"
  pv_rows :: "rank_row list"
  pv_sources :: "string list option"

text \<open>
  \<open>params.get('id') || 'overall'\<close>: a missing or empty parameter selects the overall
  ranking. The globe symbol of the heading is written \<open>globe\<close>.
\<close>

definition pillarPageId :: "string option \<Rightarrow> string" where
  "pillarPageId uid = (case uid of None \<Rightarrow> ''overall'' | Some k \<Rightarrow> if k = [] then ''overall'' else k)"

definition pillarHtml ::
  "i18n \<Rightarrow> (int \<Rightarrow> string) \<Rightarrow> data_store \<Rightarrow> string option \<Rightarrow> pillar_view" where
  "pillarHtml L label st uid =
     (let pid = pillarPageId uid;
          pillar = getPillar st pid;
          ps = getPillars st;
          ranking = getRanking L st pid
      in \<lparr>pv_name_key = (case pillar of Some p \<Rightarrow> name_key p | None \<Rightarrow> ''ranking.all_pillars''),
          pv_icon = (case pillar of Some p \<Rightarrow> icon p | None \<Rightarrow> ''globe''),
          pv_desc_key = map_option desc_key pillar,
          pv_overall_active = (pid = ''overall''),
          pv_tabs = map (\<lambda>p. (p, p_id p = pid)) ps,
          pv_rows =
            map (\<lambda>(i, r). \<lparr>rr_num = i + 1, rr_id = r_id r,
                   rr_name = getCountryName L \<lparr>c_id = r_id r, c_name = r_name r, c_scores = []\<rparr>,
                   rr_score = r_score r, rr_label = label (r_score r)\<rparr>)
              (enumerate 0 ranking),
          pv_sources = map_option sources pillar\<rparr>)"

definition renderPillar ::
  "i18n \<Rightarrow> (int \<Rightarrow> string) \<Rightarrow> data_store \<Rightarrow> string option \<Rightarrow>
   pillar_view option \<Rightarrow> pillar_view option" where
  "renderPillar L label st uid container =
     (case container of None \<Rightarrow> None | Some _ \<Rightarrow> Some (pillarHtml L label st uid))"

section \<open>country-selector.js\<close>

record selector_item =
  s_id :: string
  s_name :: string
  s_score :: int

text \<open>
  \<open>_renderList\<close>: one item per country, sorted by
  \<open>(a, b) => a.name.localeCompare(b.name, lang)\<close>; nothing happens while the list
  element has not been created.
\<close>

definition selectorItem :: "i18n \<Rightarrow> country \<Rightarrow> selector_item" where
  "selectorItem L c = \<lparr>s_id = c_id c, s_name = getCountryName L c, s_score = overallScore c\<rparr>"

definition selectorList :: "i18n \<Rightarrow> data_store \<Rightarrow> selector_item list" where
  "selectorList L st =
     (let cs = getAllCountries st; lang = getLang L in
      sort_cmp (\<lambda>a b. localeCompare L (s_name a) (s_name b) lang \<le> 0)
        (map (selectorItem L) cs))"

definition renderList :: "i18n \<Rightarrow> data_store \<Rightarrow> selector_item list option \<Rightarrow> selector_item list option" where
  "renderList L st list_el =
     (case list_el of None \<Rightarrow> None | Some _ \<Rightarrow> Some (selectorList L st))"

section \<open>Arrays and objects as shared cells\<close>

text \<open>
  An array or an object of the running program is a cell of the heap, named by its
  address: two variables that hold the same array hold the same address, and an
  assignment to a property or an operation in place (\<open>sort\<close>) changes the cell for
  both. \<open>map\<close>, \<open>filter\<close>, \<open>slice\<close>, \<open>Object.values\<close>, \<open>Object.entries\<close> and an object
  literal make a new cell. The records of the dataset are values: no statement of the
  sources assigns to a property of a record. The aggregations of the sources are
  written out on the heap below, statement by statement, to tell which cells they
  write. They are given the addresses of the store's own array and object, as if the
  getters of the missing module handed these out without a copy.
\<close>

datatype cell =
    CountryArr "country list"
  | PoliticsObj "politics_record jsobj"
  | PoliticsArr "politics_record list"
  | CountObj "jsnum jsobj"
  | PairArr "(string \<times> jsnum) list"
  | EconOptArr "economics_record option list"
  | EconArr "economics_record list"
  | ItemArr "selector_item list"

text \<open>The heap; a new cell goes to the end, and its index is its address.\<close>

type_synonym heap = "cell list"


text \<open>The content of a cell, read as the kind of array or object the variable holds.\<close>

fun countryArr :: "cell \<Rightarrow> country list" where
  "countryArr (CountryArr xs) = xs"
| "countryArr _ = []"












section \<open>Example data\<close>

text \<open>
  An arithmetic without rounding. On the example data below every sum and quotient
  the code forms is a small integer or a multiple of a power of two, which binary64
  computes without rounding too, so the values are those of the host.
\<close>

definition exactArith :: arith where
  "exactArith = \<lparr>fadd = (+), fmul = (*), fdiv = (/)\<rparr>"

text \<open>The two countries of the spec's worked example, and one without any score.\<close>

definition exA :: country where
  "exA = \<lparr>c_id = ''A'', c_name = ''A'', c_scores = [(''gov'', 80), (''econ'', 60)]\<rparr>"

definition exB :: country where
  "exB = \<lparr>c_id = ''B'', c_name = ''B'', c_scores = [(''gov'', 80), (''econ'', 90)]\<rparr>"

definition exC :: country where
  "exC = \<lparr>c_id = ''C'', c_name = ''C'', c_scores = []\<rparr>"

text \<open>A pillar, an economics record and a politics record with the given key fields.\<close>

definition exPillar :: "string \<Rightarrow> pillar" where
  "exPillar k = \<lparr>p_id = k, name_key = ''pillars.'' @ k @ ''.name'',
     desc_key = ''pillars.'' @ k @ ''.desc'', icon = ''*'', color = ''#000'', sources = []\<rparr>"

definition exEcon :: "real \<Rightarrow> real \<Rightarrow> real \<Rightarrow> economics_record" where
  "exEcon g c i = \<lparr>gdp = g, gdp_per_capita = c, gni_per_capita = c, inflation = i,
     unemployment = 5, public_debt_pct = 60,
     revenue = [(''taxes'', 70), (''social_contributions'', 20), (''grants'', 5), (''other'', 5)],
     expenditure = []\<rparr>"

definition exPol :: "string \<Rightarrow> string \<Rightarrow> politics_record" where
  "exPol r s = \<lparr>regime = r, system = ''republic'', conflict_status = s,
     democracy_score = 7, corruption_rank = 10, press_freedom_rank = 20\<rparr>"

text \<open>
  A store of three countries: \<open>C\<close> has no score and no economics record, and no
  country scores the pillar \<open>health\<close>. There are four politics records, the last for
  an id that is no country's.
\<close>

definition exStore :: data_store where
  "exStore = \<lparr>countries = [exA, exB, exC],
     pillars = map exPillar [''gov'', ''econ'', ''health''],
     economics = [(''A'', exEcon 1000 100 2), (''B'', exEcon 3000 300 4)],
     politics = [(''A'', exPol ''full_democracy'' ''peace''),
                 (''B'', exPol ''authoritarian'' ''tension''),
                 (''C'', exPol ''full_democracy'' ''peace''),
                 (''D'', exPol ''flawed_democracy'' ''peace'')]\<rparr>"

text \<open>The same store with seven pillars.\<close>

definition exStore7 :: data_store where
  "exStore7 = exStore\<lparr>pillars := map exPillar [''p1'', ''p2'', ''p3'', ''p4'', ''p5'', ''p6'', ''p7'']\<rparr>"

text \<open>
  An example locale whose collation ignores letter case (so it is not the order of the
  code units: \<open>Z\<close> is 90 and \<open>a\<close> is 97), and a store whose country names need it.
\<close>

definition foldCase :: "char \<Rightarrow> nat" where
  "foldCase c = (let n = of_char c in if 65 \<le> n \<and> n \<le> 90 then n + 32 else n)"

fun compareKeys :: "nat list \<Rightarrow> nat list \<Rightarrow> int" where
  "compareKeys [] [] = 0"
| "compareKeys [] (y # ys) = - 1"
| "compareKeys (x # xs) [] = 1"
| "compareKeys (x # xs) (y # ys) =
     (if x < y then - 1 else if y < x then 1 else compareKeys xs ys)"

definition exL :: i18n where
  "exL = \<lparr>getLang = ''en'', getCountryName = c_name,
          localeCompare = (\<lambda>a b lang. compareKeys (map foldCase a) (map foldCase b))\<rparr>"

definition exD :: country where
  "exD = \<lparr>c_id = ''D'', c_name = ''albania'', c_scores = [(''gov'', 80), (''econ'', 60)]\<rparr>"

definition exE :: country where
  "exE = \<lparr>c_id = ''E'', c_name = ''Zambia'', c_scores = [(''gov'', 70), (''econ'', 70)]\<rparr>"

definition exStoreNames :: data_store where
  "exStoreNames = exStore\<lparr>countries := [exE, exB, exD]\<rparr>"

text \<open>A heap that holds the array of countries and the object of politics records.\<close>

definition exHeap :: heap where
  "exHeap = [CountryArr (countries exStoreNames), PoliticsObj (politics exStoreNames)]"

section \<open>Auxiliary facts\<close>

subsection \<open>Objects and sorting\<close>

lemma map_of_obj_set: "map_of (obj_set k v m) = (map_of m)(k \<mapsto> v)"
  by (induction m) (auto simp: fun_eq_iff)

lemma set_insert_cmp: "set (insert_cmp le x ys) = insert x (set ys)"
  by (induction ys) auto

lemma length_insert_cmp: "length (insert_cmp le x ys) = Suc (length ys)"
  by (induction ys) auto

lemma mset_insert_cmp: "mset (insert_cmp le x ys) = add_mset x (mset ys)"
  by (induction ys) auto

lemma length_sort_cmp: "length (sort_cmp le xs) = length xs"
  by (induction xs) (auto simp: sort_cmp_def length_insert_cmp)

lemma mset_sort_cmp: "mset (sort_cmp le xs) = mset xs"
  by (induction xs) (auto simp: sort_cmp_def mset_insert_cmp)

lemma set_sort_cmp: "set (sort_cmp le xs) = set xs"
  by (induction xs) (auto simp: sort_cmp_def set_insert_cmp)

lemma consistent_on_subset: "consistent_on A le \<Longrightarrow> B \<subseteq> A \<Longrightarrow> consistent_on B le"
  unfolding consistent_on_def by blast

lemma consistent_total:
  "consistent_on A le \<Longrightarrow> a \<in> A \<Longrightarrow> b \<in> A \<Longrightarrow> le a b \<or> le b a"
  unfolding consistent_on_def by blast

lemma consistent_trans:
  "consistent_on A le \<Longrightarrow> a \<in> A \<Longrightarrow> b \<in> A \<Longrightarrow> c \<in> A \<Longrightarrow> le a b \<Longrightarrow> le b c \<Longrightarrow> le a c"
  unfolding consistent_on_def by blast

text \<open>Inserting into a sorted list keeps it sorted, by induction on the list.\<close>

lemma sorted_insert_cmp:
  assumes "consistent_on (insert x (set ys)) le" and "sorted_wrt le ys"
  shows "sorted_wrt le (insert_cmp le x ys)"
  using assms
proof (induction ys)
  case Nil
  then show ?case by simp
next
  case (Cons y ys)
  let ?A = "insert x (set (y # ys))"
  have cons: "consistent_on ?A le" by (rule Cons.prems(1))
  have sub: "consistent_on (insert x (set ys)) le"
    by (rule consistent_on_subset [OF cons]) auto
  have xA: "x \<in> ?A" and yA: "y \<in> ?A" by simp_all
  show ?case
  proof (cases "le x y")
    case True
    have "le x z" if "z \<in> set ys" for z
    proof -
      have "le y z" using Cons.prems(2) that by simp
      moreover have "z \<in> ?A" using that by simp
      ultimately show ?thesis
        using consistent_trans [OF cons xA yA _ True] by blast
    qed
    with True Cons.prems(2) show ?thesis by simp
  next
    case False
    then have "le y x"
      using consistent_total [OF cons xA yA] by blast
    moreover have "sorted_wrt le (insert_cmp le x ys)"
      using Cons.IH [OF sub] Cons.prems(2) by simp
    ultimately show ?thesis
      using False Cons.prems(2) by (simp add: set_insert_cmp)
  qed
qed

lemma sorted_sort_cmp:
  "consistent_on (set xs) le \<Longrightarrow> sorted_wrt le (sort_cmp le xs)"
proof (induction xs)
  case Nil
  then show ?case by (simp add: sort_cmp_def)
next
  case (Cons x xs)
  have "consistent_on (set xs) le"
    by (rule consistent_on_subset [OF Cons.prems]) auto
  then have "sorted_wrt le (sort_cmp le xs)" by (rule Cons.IH)
  moreover have "consistent_on (insert x (set (sort_cmp le xs))) le"
    using Cons.prems by (simp add: set_sort_cmp)
  ultimately have "sorted_wrt le (insert_cmp le x (sort_cmp le xs))"
    by (rule sorted_insert_cmp [rotated])
  then show ?case by (simp add: sort_cmp_def)
qed

subsection \<open>Rounding and means\<close>

lemma Math_round_near: "\<bar>real_of_int (Math_round x) - x\<bar> \<le> 1 / 2"
  unfolding Math_round_def by linarith

lemma Math_round_mono: "x \<le> y \<Longrightarrow> Math_round x \<le> Math_round y"
  unfolding Math_round_def by (simp add: floor_mono)

lemma Math_round_of_int: "Math_round (real_of_int n) = n"
  unfolding Math_round_def by linarith

lemma sum_list_bounds:
  fixes vs :: "int list"
  assumes "\<forall>v\<in>set vs. lo \<le> v \<and> v \<le> hi"
  shows "lo * int (length vs) \<le> sum_list vs \<and> sum_list vs \<le> hi * int (length vs)"
  using assms
proof (induction vs)
  case Nil
  then show ?case by simp
next
  case (Cons v vs)
  then have "lo \<le> v" "v \<le> hi"
    and "lo * int (length vs) \<le> sum_list vs" "sum_list vs \<le> hi * int (length vs)"
    by simp_all
  moreover have "lo * int (length (v # vs)) = lo * int (length vs) + lo"
    and "hi * int (length (v # vs)) = hi * int (length vs) + hi"
    by (simp_all add: distrib_left)
  ultimately show ?case by simp
qed

lemma mean_bounds:
  assumes "vs \<noteq> []" and "\<forall>v\<in>set vs. lo \<le> v \<and> v \<le> hi"
  shows "real_of_int lo \<le> mean vs \<and> mean vs \<le> real_of_int hi"
proof -
  have n: "0 < real (length vs)" using assms(1) by simp
  from sum_list_bounds [OF assms(2)]
  have "real_of_int (lo * int (length vs)) \<le> real_of_int (sum_list vs)"
    and "real_of_int (sum_list vs) \<le> real_of_int (hi * int (length vs))"
    by (simp_all only: of_int_le_iff)
  then have "real_of_int lo * real (length vs) \<le> real_of_int (sum_list vs)"
    and "real_of_int (sum_list vs) \<le> real_of_int hi * real (length vs)"
    by simp_all
  with n show ?thesis
    unfolding mean_def by (simp add: pos_le_divide_eq pos_divide_le_eq)
qed

lemma rounded_mean_bounds:
  assumes "vs \<noteq> []" and "\<forall>v\<in>set vs. lo \<le> v \<and> v \<le> hi"
  shows "lo \<le> Math_round (mean vs) \<and> Math_round (mean vs) \<le> hi"
proof -
  from mean_bounds [OF assms]
  have "Math_round (real_of_int lo) \<le> Math_round (mean vs)"
    and "Math_round (mean vs) \<le> Math_round (real_of_int hi)"
    by (simp_all add: Math_round_mono)
  then show ?thesis by (simp add: Math_round_of_int)
qed

lemma toFixed_near: "\<bar>toFixed 1 x - x\<bar> \<le> 1 / 20"
proof (cases "x < 0")
  case True
  define n where "n = \<lfloor>(- x) * 10 + 1 / 2\<rfloor>"
  have "real_of_int n \<le> (- x) * 10 + 1 / 2" "(- x) * 10 + 1 / 2 < real_of_int n + 1"
    unfolding n_def by linarith+
  moreover have "toFixed 1 x = - (real_of_int n / 10)"
    using True by (simp add: toFixed_def n_def)
  ultimately show ?thesis by linarith
next
  case False
  define n where "n = \<lfloor>x * 10 + 1 / 2\<rfloor>"
  have "real_of_int n \<le> x * 10 + 1 / 2" "x * 10 + 1 / 2 < real_of_int n + 1"
    unfolding n_def by linarith+
  moreover have "toFixed 1 x = real_of_int n / 10"
    using False by (simp add: toFixed_def n_def)
  ultimately show ?thesis by linarith
qed

subsection \<open>Lists and lookups\<close>

lemma map_filter_skip: "f x = None \<Longrightarrow> List.map_filter f (xs @ x # ys) = List.map_filter f (xs @ ys)"
  by (simp add: List.map_filter_def)

lemma map_of_keyed:
  "p \<in> set ps \<Longrightarrow> map_of (map (\<lambda>p. (f p, g (f p))) ps) (f p) = Some (g (f p))"
  by (induction ps) auto

lemma nth_not_in_take:
  assumes "distinct xs" "n \<le> i" "i < length xs"
  shows "xs ! i \<notin> set (take n xs)"
proof -
  have "xs ! i = drop n xs ! (i - n)" using assms by simp
  moreover have "i - n < length (drop n xs)" using assms by simp
  ultimately have "xs ! i \<in> set (drop n xs)" by (metis nth_mem)
  moreover have "set (take n xs) \<inter> set (drop n xs) = {}"
    using assms(1) by (simp add: set_take_disj_set_drop_if_distinct)
  ultimately show ?thesis by blast
qed

lemmas ex_defs = exStore_def exA_def exB_def exC_def exPillar_def exEcon_def exPol_def

section \<open>The overall score of a country\<close>

text \<open>
  Claim C1. For every country whose pillar scores lie in [0,100], \<open>overallScore\<close> is
  an integer in [0,100]; it is the mean of the pillar scores present in the country's
  \<open>scores\<close>, rounded to the nearest integer (it differs from the mean by at most one
  half); and for a country with no pillar score it is exactly 0, not an error.
\<close>

theorem overallScore_rounded_mean:
  assumes "\<forall>v\<in>set (map snd (c_scores c)). 0 \<le> v \<and> v \<le> 100"
  shows "0 \<le> overallScore c \<and> overallScore c \<le> 100 \<and>
         (c_scores c = [] \<longrightarrow> overallScore c = 0) \<and>
         (c_scores c \<noteq> [] \<longrightarrow>
            overallScore c = Math_round (mean (map snd (c_scores c))) \<and>
            \<bar>real_of_int (overallScore c) - mean (map snd (c_scores c))\<bar> \<le> 1 / 2)"
proof (cases "c_scores c = []")
  case True
  then show ?thesis by (simp add: overallScore_def)
next
  case False
  then have ne: "map snd (c_scores c) \<noteq> []" by simp
  have eq: "overallScore c = Math_round (mean (map snd (c_scores c)))"
    using False by (simp add: overallScore_def)
  from rounded_mean_bounds [OF ne assms] eq Math_round_near False
  show ?thesis by simp
qed

theorem overallScore_rounded_mean_witness:
  "overallScore exA = 70 \<and> overallScore exB = 85 \<and> overallScore exC = 0 \<and>
   0 \<le> overallScore exA \<and> overallScore exA \<le> 100 \<and>
   \<bar>real_of_int (overallScore exA) - mean (map snd (c_scores exA))\<bar> \<le> 1 / 2"
proof -
  have "overallScore exA = 70" "overallScore exB = 85" "overallScore exC = 0"
    by (simp_all add: overallScore_def exA_def exB_def exC_def mean_def Math_round_def)
  moreover have ne: "c_scores exA \<noteq> []"
    by (simp add: exA_def)
  moreover have "\<forall>v\<in>set (map snd (c_scores exA)). 0 \<le> v \<and> v \<le> 100"
    by (simp add: exA_def)
  from overallScore_rounded_mean [OF this] ne
  have "0 \<le> overallScore exA \<and> overallScore exA \<le> 100 \<and>
        \<bar>real_of_int (overallScore exA) - mean (map snd (c_scores exA))\<bar> \<le> 1 / 2"
    by blast
  ultimately show ?thesis by simp
qed

section \<open>Global averages per pillar\<close>

text \<open>
  Claim C2. For every pillar \<open>P\<close>, the global average of \<open>P\<close> is the mean of \<open>P\<close>'s score
  over exactly the countries that have a score for \<open>P\<close>, rounded to the nearest
  integer: a country without \<open>P\<close> changes neither the numerator nor the denominator
  (adding or removing it leaves the average as it is), and a pillar that no country
  scores has the average 0. The object \<open>globalAverages()\<close> holds this value under the
  pillar's id, and the cards of the index page show it.
\<close>

theorem globalAverage_over_defining_countries:
  "pillarScores st P =
     map (\<lambda>c. the (map_of (c_scores c) P))
       (filter (\<lambda>c. map_of (c_scores c) P \<noteq> None) (countries st)) \<and>
   globalAverage st P =
     (if pillarScores st P = [] then 0 else Math_round (mean (pillarScores st P))) \<and>
   (pillarScores st P \<noteq> [] \<longrightarrow>
      \<bar>real_of_int (globalAverage st P) - mean (pillarScores st P)\<bar> \<le> 1 / 2) \<and>
   ((\<forall>c\<in>set (countries st). map_of (c_scores c) P = None) \<longrightarrow> globalAverage st P = 0) \<and>
   (map_of (c_scores c) P = None \<longrightarrow>
      globalAverage (st\<lparr>countries := xs @ c # ys\<rparr>) P =
      globalAverage (st\<lparr>countries := xs @ ys\<rparr>) P) \<and>
   (p \<in> set (pillars st) \<longrightarrow>
      map_of (getGlobalAverages st) (p_id p) = Some (globalAverage st (p_id p)) \<and>
      card_avg (pillarCard (getGlobalAverages st) p) = globalAverage st (p_id p))"
proof -
  have a: "pillarScores st P =
     map (\<lambda>c. the (map_of (c_scores c) P))
       (filter (\<lambda>c. map_of (c_scores c) P \<noteq> None) (countries st))"
    by (simp add: pillarScores_def List.map_filter_def comp_def)
  have b: "globalAverage st P =
     (if pillarScores st P = [] then 0 else Math_round (mean (pillarScores st P)))"
    by (simp add: globalAverage_def)
  have c: "pillarScores st P \<noteq> [] \<longrightarrow>
      \<bar>real_of_int (globalAverage st P) - mean (pillarScores st P)\<bar> \<le> 1 / 2"
    using Math_round_near by (simp add: b)
  have d: "(\<forall>c\<in>set (countries st). map_of (c_scores c) P = None) \<longrightarrow> globalAverage st P = 0"
    by (simp add: b a filter_empty_conv)
  have e: "map_of (c_scores c) P = None \<longrightarrow>
      globalAverage (st\<lparr>countries := xs @ c # ys\<rparr>) P =
      globalAverage (st\<lparr>countries := xs @ ys\<rparr>) P"
    by (simp add: globalAverage_def pillarScores_def map_filter_skip)
  have f: "p \<in> set (pillars st) \<longrightarrow>
      map_of (getGlobalAverages st) (p_id p) = Some (globalAverage st (p_id p)) \<and>
      card_avg (pillarCard (getGlobalAverages st) p) = globalAverage st (p_id p)"
    by (simp add: getGlobalAverages_def pillarCard_def map_of_keyed)
  from a b c d e f show ?thesis by blast
qed

theorem globalAverage_over_defining_countries_witness:
  "globalAverage exStore ''econ'' = 75 \<and>
   globalAverage (exStore\<lparr>countries := [exA, exB]\<rparr>) ''econ'' = 75 \<and>
   globalAverage exStore ''health'' = 0 \<and>
   map_of (getGlobalAverages exStore) ''health'' = Some 0"
proof -
  have none: "map_of (c_scores exC) ''econ'' = None"
    by (simp add: exC_def)
  have all_none: "\<forall>c\<in>set (countries exStore). map_of (c_scores c) ''health'' = None"
    by (simp add: ex_defs)
  have mem: "exPillar ''health'' \<in> set (pillars exStore)"
    by (simp add: exStore_def)
  have whole: "exStore\<lparr>countries := [exA, exB, exC]\<rparr> = exStore"
    by (simp add: exStore_def)
  note T = globalAverage_over_defining_countries
  have "globalAverage (exStore\<lparr>countries := [exA, exB] @ exC # []\<rparr>) ''econ'' =
        globalAverage (exStore\<lparr>countries := [exA, exB] @ []\<rparr>) ''econ''"
    using T [where st = exStore and P = "''econ''" and c = exC and xs = "[exA, exB]" and ys = "[]"]
      none by blast
  then have skip: "globalAverage exStore ''econ'' =
      globalAverage (exStore\<lparr>countries := [exA, exB]\<rparr>) ''econ''"
    using whole by simp
  have zero: "globalAverage exStore ''health'' = 0"
    using T [where st = exStore and P = "''health''"] all_none by blast
  have "map_of (getGlobalAverages exStore) (p_id (exPillar ''health'')) =
        Some (globalAverage exStore (p_id (exPillar ''health'')))"
    using T [where st = exStore and p = "exPillar ''health''"] mem by blast
  then have obj: "map_of (getGlobalAverages exStore) ''health'' = Some 0"
    using zero by (simp add: exPillar_def)
  have "globalAverage (exStore\<lparr>countries := [exA, exB]\<rparr>) ''econ'' = 75"
    by (simp add: ex_defs globalAverage_def pillarScores_def List.map_filter_def mean_def
        Math_round_def)
  with skip zero obj show ?thesis
    by simp
qed

text \<open>
  The peace bar does not read \<open>globalAverages()\<close>: it averages the \<open>security\<close> and
  \<open>governance\<close> scores itself, over all countries, a missing score counting as 0. On
  the example store the two ways differ.
\<close>

lemma peace_bar_average_counts_missing_as_zero:
  "avgPillarInline exactArith (countries exStore) ''econ'' = Some 50 \<and>
   globalAverage exStore ''econ'' = 75"
  by (simp add: ex_defs avgPillarInline_def globalAverage_def pillarScores_def
      List.map_filter_def mean_def Math_round_def reduceSum_def exactArith_def)

section \<open>The cards of the index page\<close>

text \<open>
  Claim C10. The overview shows the first six pillars in declaration order: for a list
  of \<open>n\<close> pillars exactly \<open>min n 6\<close> overview cards are produced, they are the cards of
  the first six pillars, and (pillar ids being distinct) a pillar beyond the sixth is
  on no overview card; the pillar-cards section shows every pillar.
\<close>

theorem overview_cards_first_six:
  "length (overviewCardsHtml st) = min (length (pillars st)) 6 \<and>
   map card_pillar (overviewCardsHtml st) = take 6 (pillars st) \<and>
   map card_pillar (pillarCardsHtml st) = pillars st \<and>
   (distinct (map p_id (pillars st)) \<longrightarrow> 6 \<le> i \<longrightarrow> i < length (pillars st) \<longrightarrow>
      p_id (pillars st ! i) \<notin> set (map (p_id \<circ> card_pillar) (overviewCardsHtml st)) \<and>
      pillars st ! i \<in> set (map card_pillar (pillarCardsHtml st))) \<and>
   (overview_cards pg \<noteq> None \<longrightarrow>
      overview_cards (renderOverviewCards pg) = Some (overviewCardsHtml (store pg))) \<and>
   (pillar_cards pg \<noteq> None \<longrightarrow>
      pillar_cards (renderPillarCards pg) = Some (pillarCardsHtml (store pg)))"
proof -
  have ov: "map card_pillar (overviewCardsHtml st) = take 6 (pillars st)"
    by (simp add: overviewCardsHtml_def getPillars_def pillarCard_def comp_def)
  have pc: "map card_pillar (pillarCardsHtml st) = pillars st"
    by (simp add: pillarCardsHtml_def getPillars_def pillarCard_def comp_def)
  have len: "length (overviewCardsHtml st) = min (length (pillars st)) 6"
    by (simp add: overviewCardsHtml_def getPillars_def)
  have ids: "map (p_id \<circ> card_pillar) (overviewCardsHtml st) = take 6 (map p_id (pillars st))"
    using ov by (metis map_map take_map)
  have beyond: "distinct (map p_id (pillars st)) \<longrightarrow> 6 \<le> i \<longrightarrow> i < length (pillars st) \<longrightarrow>
      p_id (pillars st ! i) \<notin> set (map (p_id \<circ> card_pillar) (overviewCardsHtml st)) \<and>
      pillars st ! i \<in> set (map card_pillar (pillarCardsHtml st))"
  proof (intro impI)
    assume d: "distinct (map p_id (pillars st))" and i: "6 \<le> i" "i < length (pillars st)"
    have "map p_id (pillars st) ! i \<notin> set (take 6 (map p_id (pillars st)))"
      by (rule nth_not_in_take [OF d i(1)]) (simp add: i(2))
    then show "p_id (pillars st ! i) \<notin> set (map (p_id \<circ> card_pillar) (overviewCardsHtml st)) \<and>
      pillars st ! i \<in> set (map card_pillar (pillarCardsHtml st))"
      using i(2) by (simp only: ids pc) simp
  qed
  have r1: "overview_cards pg \<noteq> None \<longrightarrow>
      overview_cards (renderOverviewCards pg) = Some (overviewCardsHtml (store pg))"
    by (auto simp: renderOverviewCards_def)
  have r2: "pillar_cards pg \<noteq> None \<longrightarrow>
      pillar_cards (renderPillarCards pg) = Some (pillarCardsHtml (store pg))"
    by (auto simp: renderPillarCards_def)
  from len ov pc beyond r1 r2 show ?thesis by blast
qed


theorem overview_cards_first_six_witness:
  "length (overviewCardsHtml exStore7) = 6 \<and>
   p_id (pillars exStore7 ! 6) = ''p7'' \<and>
   ''p7'' \<notin> set (map (p_id \<circ> card_pillar) (overviewCardsHtml exStore7)) \<and>
   pillars exStore7 ! 6 \<in> set (map card_pillar (pillarCardsHtml exStore7))"
proof -
  have d: "distinct (map p_id (pillars exStore7))"
    by (simp add: exStore7_def exPillar_def)
  have n: "length (pillars exStore7) = 7" and p7: "p_id (pillars exStore7 ! 6) = ''p7''"
    by (simp_all add: exStore7_def exPillar_def)
  from overview_cards_first_six [of exStore7 6] d n p7
  show ?thesis by simp
qed

section \<open>The global economic aggregates\<close>

lemma getEconomics_countries_update [simp]:
  "getEconomics (st\<lparr>countries := cs\<rparr>) = getEconomics st"
  by (simp add: getEconomics_def fun_eq_iff)

text \<open>
  Claim C4. Every aggregate of the global economy bar (the total GDP as a sum; GDP per
  capita, inflation, unemployment and public debt as means) is computed over exactly
  the countries that have an economics record: the records the code sums are theirs,
  in the countries' order, the denominator of each mean is their number, and a
  country without a record changes nothing (it is not a zero in the sum and it is not
  counted in the denominator). The sums and quotients are those of the host's
  arithmetic; the means are shown through \<open>toFixed(1)\<close> and \<open>Math.round\<close>.
\<close>

theorem econ_aggregates_over_records_only:
  "allEcon st cs =
     map (\<lambda>c. the (getEconomics st (c_id c)))
       (filter (\<lambda>c. getEconomics st (c_id c) \<noteq> None) cs) \<and>
   n_econ (econAggregates A (allEcon st cs)) =
     length (filter (\<lambda>c. getEconomics st (c_id c) \<noteq> None) cs) \<and>
   totalGdp (econAggregates A (allEcon st cs)) = reduceSum A gdp (allEcon st cs) \<and>
   avgGdpCap (econAggregates A (allEcon st cs)) =
     Math_round (fdiv A (reduceSum A gdp_per_capita (allEcon st cs))
       (real (length (filter (\<lambda>c. getEconomics st (c_id c) \<noteq> None) cs)))) \<and>
   avgInflation (econAggregates A (allEcon st cs)) =
     toFixed 1 (fdiv A (reduceSum A inflation (allEcon st cs))
       (real (length (filter (\<lambda>c. getEconomics st (c_id c) \<noteq> None) cs)))) \<and>
   avgUnemployment (econAggregates A (allEcon st cs)) =
     toFixed 1 (fdiv A (reduceSum A unemployment (allEcon st cs))
       (real (length (filter (\<lambda>c. getEconomics st (c_id c) \<noteq> None) cs)))) \<and>
   avgDebt (econAggregates A (allEcon st cs)) =
     toFixed 1 (fdiv A (reduceSum A public_debt_pct (allEcon st cs))
       (real (length (filter (\<lambda>c. getEconomics st (c_id c) \<noteq> None) cs)))) \<and>
   (getEconomics st (c_id c) = None \<longrightarrow>
      allEcon st (xs @ c # ys) = allEcon st (xs @ ys) \<and>
      globalEconBarHtml A (st\<lparr>countries := xs @ c # ys\<rparr>) =
      globalEconBarHtml A (st\<lparr>countries := xs @ ys\<rparr>))"
proof -
  let ?have = "filter (\<lambda>c. getEconomics st (c_id c) \<noteq> None) cs"
  have recs: "allEcon st cs = map (\<lambda>c. the (getEconomics st (c_id c))) ?have"
    by (simp add: allEcon_def List.map_filter_def comp_def)
  then have len: "length (allEcon st cs) = length ?have"
    by simp
  have n: "n_econ (econAggregates A (allEcon st cs)) = length ?have"
    by (simp add: econAggregates_def Let_def len)
  have g: "totalGdp (econAggregates A (allEcon st cs)) = reduceSum A gdp (allEcon st cs)"
    by (simp add: econAggregates_def Let_def)
  have c: "avgGdpCap (econAggregates A (allEcon st cs)) =
     Math_round (fdiv A (reduceSum A gdp_per_capita (allEcon st cs)) (real (length ?have)))"
    by (simp add: econAggregates_def Let_def len)
  have i: "avgInflation (econAggregates A (allEcon st cs)) =
     toFixed 1 (fdiv A (reduceSum A inflation (allEcon st cs)) (real (length ?have)))"
    by (simp add: econAggregates_def Let_def len)
  have u: "avgUnemployment (econAggregates A (allEcon st cs)) =
     toFixed 1 (fdiv A (reduceSum A unemployment (allEcon st cs)) (real (length ?have)))"
    by (simp add: econAggregates_def Let_def len)
  have d: "avgDebt (econAggregates A (allEcon st cs)) =
     toFixed 1 (fdiv A (reduceSum A public_debt_pct (allEcon st cs)) (real (length ?have)))"
    by (simp add: econAggregates_def Let_def len)
  have skip: "getEconomics st (c_id c) = None \<longrightarrow>
      allEcon st (xs @ c # ys) = allEcon st (xs @ ys) \<and>
      globalEconBarHtml A (st\<lparr>countries := xs @ c # ys\<rparr>) =
      globalEconBarHtml A (st\<lparr>countries := xs @ ys\<rparr>)"
    by (simp add: globalEconBarHtml_def getAllCountries_def allEcon_def map_filter_skip)
  from recs n g c i u d skip show ?thesis by blast
qed

text \<open>
  On the example store \<open>C\<close> has no record: the mean GDP per capita of 100 and 300 is
  200 (it would be 133 with \<open>C\<close> as a zero), and the bar is the one of the store
  without \<open>C\<close>.
\<close>

theorem econ_aggregates_over_records_only_witness:
  "n_econ (econAggregates exactArith (allEcon exStore (countries exStore))) = 2 \<and>
   globalEconBarHtml exactArith exStore =
     globalEconBarHtml exactArith (exStore\<lparr>countries := [exA, exB]\<rparr>) \<and>
   globalEconBarHtml exactArith exStore =
     Rendered \<lparr>gdp_total = Scaled 4, avg_gdp_capita = Plain 200, avg_inflation = 3,
       avg_unemployment = 5, avg_debt = 60\<rparr>"
proof -
  note T = econ_aggregates_over_records_only [where A = exactArith]
  have none: "getEconomics exStore (c_id exC) = None"
    by (simp add: ex_defs getEconomics_def)
  have whole: "exStore\<lparr>countries := [exA, exB, exC]\<rparr> = exStore"
    by (simp add: exStore_def)
  have "n_econ (econAggregates exactArith (allEcon exStore (countries exStore))) =
        length (filter (\<lambda>c. getEconomics exStore (c_id c) \<noteq> None) (countries exStore))"
    using T [where st = exStore and cs = "countries exStore"] by blast
  then have n: "n_econ (econAggregates exactArith (allEcon exStore (countries exStore))) = 2"
    by (simp add: ex_defs getEconomics_def)
  have "globalEconBarHtml exactArith (exStore\<lparr>countries := [exA, exB] @ exC # []\<rparr>) =
        globalEconBarHtml exactArith (exStore\<lparr>countries := [exA, exB] @ []\<rparr>)"
    using T [where st = exStore and c = exC and xs = "[exA, exB]" and ys = "[]"] none by blast
  then have skip: "globalEconBarHtml exactArith exStore =
      globalEconBarHtml exactArith (exStore\<lparr>countries := [exA, exB]\<rparr>)"
    using whole by simp
  have "globalEconBarHtml exactArith (exStore\<lparr>countries := [exA, exB]\<rparr>) =
    Rendered \<lparr>gdp_total = Scaled 4, avg_gdp_capita = Plain 200, avg_inflation = 3,
      avg_unemployment = 5, avg_debt = 60\<rparr>"
    by (simp add: ex_defs globalEconBarHtml_def getAllCountries_def allEcon_def getEconomics_def
        List.map_filter_def econAggregates_def reduceSum_def toFixed_def Math_round_def
        fmtT_def fmtK_int_def exactArith_def)
  with n skip show ?thesis by simp
qed

section \<open>Regime and conflict tallies\<close>

lemma governanceTallies_fold:
  "fold (\<lambda>p (regimes, systems). (tally (regime p) regimes, tally (system p) systems)) es (r0, s0) =
   (fold (\<lambda>p. tally (regime p)) es r0, fold (\<lambda>p. tally (system p)) es s0)"
  by (induction es arbitrary: r0 s0) simp_all

lemma fst_governanceTallies:
  "fst (governanceTallies es) = fold (\<lambda>p. tally (regime p)) es regimes_init"
  by (simp add: governanceTallies_def governanceTallies_fold)

lemma tally_other: "k' \<noteq> k \<Longrightarrow> map_of (tally k' m) k = map_of m k"
  by (auto simp: tally_def map_of_obj_set split: option.splits jsnum.splits)

lemma tally_same: "map_of m k = Some (Num n) \<Longrightarrow> map_of (tally k m) k = Some (Num (n + 1))"
  by (simp add: tally_def map_of_obj_set)

lemma map_of_fold_tally:
  "map_of m k = Some (Num n) \<Longrightarrow>
   map_of (fold (\<lambda>p. tally (f p)) es m) k = Some (Num (n + length (filter (\<lambda>p. f p = k) es)))"
proof (induction es arbitrary: m n)
  case Nil
  then show ?case by simp
next
  case (Cons p es)
  show ?case
  proof (cases "f p = k")
    case True
    with Cons.prems have "map_of (tally (f p) m) k = Some (Num (n + 1))"
      by (simp add: tally_same)
    from Cons.IH [OF this] True show ?thesis by simp
  next
    case False
    with Cons.prems have "map_of (tally (f p) m) k = Some (Num n)"
      by (simp add: tally_other)
    from Cons.IH [OF this] False show ?thesis by simp
  qed
qed

lemma map_of_regimes_init:
  "map_of regimes_init k = (if k \<in> set regimeKeys then Some (Num 0) else None)"
  by (simp add: regimes_init_def regimeKeys_def)

lemma regime_count:
  "k \<in> set regimeKeys \<Longrightarrow>
   map_of (fst (governanceTallies es)) k = Some (Num (length (filter (\<lambda>p. regime p = k) es)))"
  using map_of_fold_tally [where m = regimes_init and k = k and n = 0 and f = regime and es = es]
  by (simp add: fst_governanceTallies map_of_regimes_init)




lemma governanceBarHtml_nonempty:
  assumes "pol \<noteq> []"
  shows "\<exists>v. governanceBarHtml A pol = Rendered v \<and>
           barSegments v =
             map (\<lambda>k. (k, regimePct A (map_of (fst (governanceTallies (map snd pol))) k)
                            (length pol))) regimeKeys \<and>
           legendItems v =
             map (\<lambda>k. (k, map_of (fst (governanceTallies (map snd pol))) k)) regimeKeys"
  using assms by (simp add: governanceBarHtml_def Let_def case_prod_beta)





lemma conflictPush_ok:
  assumes "conflict_status (snd e) \<notin> set inheritedKeys"
  shows "\<exists>m'. conflictPush e m = Inr m' \<and>
           map_of m' = (map_of m)(conflict_status (snd e) \<mapsto>
                          idsOf m (conflict_status (snd e)) @ [fst e])"
  using assms by (simp add: conflictPush_def Let_def map_of_obj_set idsOf_def)

lemma conflictLoop_ok:
  assumes "\<forall>e\<in>set pol. conflict_status (snd e) \<notin> set inheritedKeys"
  shows "\<exists>m'. conflictLoop pol m = Inr m' \<and>
           (\<forall>k. map_of m' k =
              (if map_of m k = None \<and> k \<notin> (\<lambda>e. conflict_status (snd e)) ` set pol then None
               else Some (idsOf m k @ map fst (filter (\<lambda>e. conflict_status (snd e) = k) pol))))"
  using assms
proof (induction pol arbitrary: m)
  case Nil
  then show ?case by (auto simp: idsOf_def)
next
  case (Cons e pol)
  from Cons.prems have e: "conflict_status (snd e) \<notin> set inheritedKeys"
    and rest: "\<forall>e\<in>set pol. conflict_status (snd e) \<notin> set inheritedKeys"
    by simp_all
  from conflictPush_ok [OF e] obtain m1 where
    m1: "conflictPush e m = Inr m1"
    and l1: "map_of m1 = (map_of m)(conflict_status (snd e) \<mapsto>
               idsOf m (conflict_status (snd e)) @ [fst e])"
    by blast
  from Cons.IH [OF rest] obtain m' where
    m': "conflictLoop pol m1 = Inr m'"
    and l': "\<forall>k. map_of m' k =
              (if map_of m1 k = None \<and> k \<notin> (\<lambda>e. conflict_status (snd e)) ` set pol then None
               else Some (idsOf m1 k @ map fst (filter (\<lambda>e. conflict_status (snd e) = k) pol)))"
    by blast
  have "conflictLoop (e # pol) m = Inr m'"
    by (simp add: m1 m')
  moreover have "\<forall>k. map_of m' k =
      (if map_of m k = None \<and> k \<notin> (\<lambda>e. conflict_status (snd e)) ` set (e # pol) then None
       else Some (idsOf m k @ map fst (filter (\<lambda>e. conflict_status (snd e) = k) (e # pol))))"
    using l' by (auto simp: l1 idsOf_def)
  ultimately show ?case by blast
qed

lemma map_of_conflicts_init:
  "map_of conflicts_init k = (if k \<in> set statusKeys then Some [] else None)"
  by (simp add: conflicts_init_def statusKeys_def)

lemma conflictTally_ok:
  assumes "\<forall>e\<in>set pol. conflict_status (snd e) \<notin> set inheritedKeys"
  shows "\<exists>conflicts. conflictTally pol = Inr conflicts \<and>
           (\<forall>k\<in>set statusKeys. idsOf conflicts k =
              map fst (filter (\<lambda>e. conflict_status (snd e) = k) pol) \<and>
              map_of conflicts k =
              Some (map fst (filter (\<lambda>e. conflict_status (snd e) = k) pol)))"
proof -
  from conflictLoop_ok [OF assms, of conflicts_init] obtain m' where
    m': "conflictLoop pol conflicts_init = Inr m'"
    and l': "\<forall>k. map_of m' k =
              (if map_of conflicts_init k = None \<and> k \<notin> (\<lambda>e. conflict_status (snd e)) ` set pol
               then None
               else Some (idsOf conflicts_init k @
                          map fst (filter (\<lambda>e. conflict_status (snd e) = k) pol)))"
    by blast
  have "\<forall>k\<in>set statusKeys. idsOf m' k =
              map fst (filter (\<lambda>e. conflict_status (snd e) = k) pol) \<and>
              map_of m' k =
              Some (map fst (filter (\<lambda>e. conflict_status (snd e) = k) pol))"
    using l' by (simp add: idsOf_def map_of_conflicts_init)
  with m' show ?thesis by (auto simp: conflictTally_def)
qed

lemma status_rows:
  "map (\<lambda>r. (st_key r, st_count r)) (map (statusRow L st conflicts) ks) =
   map (\<lambda>k. (k, length (idsOf conflicts k))) ks"
  by (simp add: statusRow_def Let_def comp_def)

lemma peace_rows:
  assumes ok: "\<forall>e\<in>set (politics st). conflict_status (snd e) \<notin> set inheritedKeys"
    and ne: "politics st \<noteq> []"
  shows "\<exists>v. peaceBarHtml A L st = Inr (Rendered v) \<and>
           map (\<lambda>r. (st_key r, st_count r)) (statusItems v) =
             map (\<lambda>k. (k, length (filter (\<lambda>e. conflict_status (snd e) = k) (politics st))))
               (filter (\<lambda>k. \<exists>e\<in>set (politics st). conflict_status (snd e) = k) statusKeys)"
proof -
  let ?pol = "politics st"
  from conflictTally_ok [OF ok] obtain conflicts where
    c: "conflictTally ?pol = Inr conflicts"
    and ids: "\<forall>k\<in>set statusKeys. idsOf conflicts k =
                map fst (filter (\<lambda>e. conflict_status (snd e) = k) ?pol)"
    by blast
  define v where "v =
     \<lparr>atPeace = length (idsOf conflicts ''peace''),
      inConflict = int (length ?pol) - int (length (idsOf conflicts ''peace'')),
      avgSecurity = avgPillarInline A (countries st) ''security'',
      avgGovernance = avgPillarInline A (countries st) ''governance'',
      statusItems =
        map (statusRow L st conflicts)
          (filter (\<lambda>k. length (idsOf conflicts k) > 0) statusKeys)\<rparr>"
  have r: "peaceBarHtml A L st = Inr (Rendered v)"
    using ne by (simp add: peaceBarHtml_def getAllPolitics_def getAllCountries_def c v_def Let_def)
  have f: "filter (\<lambda>k. length (idsOf conflicts k) > 0) statusKeys =
           filter (\<lambda>k. \<exists>e\<in>set ?pol. conflict_status (snd e) = k) statusKeys"
    by (rule filter_cong) (auto simp: ids filter_empty_conv)
  have "map (\<lambda>r. (st_key r, st_count r)) (statusItems v) =
        map (\<lambda>k. (k, length (idsOf conflicts k)))
          (filter (\<lambda>k. \<exists>e\<in>set ?pol. conflict_status (snd e) = k) statusKeys)"
    by (simp only: v_def peace_view.simps status_rows f)
  also have "\<dots> = map (\<lambda>k. (k, length (filter (\<lambda>e. conflict_status (snd e) = k) ?pol)))
          (filter (\<lambda>k. \<exists>e\<in>set ?pol. conflict_status (snd e) = k) statusKeys)"
    by (rule map_cong) (simp_all add: ids)
  finally show ?thesis using r by blast
qed

lemma legend_counts:
  assumes ne: "pol \<noteq> []"
  shows "\<exists>v. governanceBarHtml A pol = Rendered v \<and>
         legendItems v =
           map (\<lambda>k. (k, Some (Num (length (filter (\<lambda>p. regime p = k) (map snd pol))))))
             regimeKeys"
proof -
  have m: "map (\<lambda>k. (k, map_of (fst (governanceTallies (map snd pol))) k)) regimeKeys =
        map (\<lambda>k. (k, Some (Num (length (filter (\<lambda>p. regime p = k) (map snd pol))))))
          regimeKeys"
    by (rule map_cong) (simp_all add: regime_count)
  from governanceBarHtml_nonempty [OF ne] obtain v where
    v: "governanceBarHtml A pol = Rendered v"
    and vl: "legendItems v = map (\<lambda>k. (k, map_of (fst (governanceTallies (map snd pol))) k)) regimeKeys"
    by blast
  from vl m have "legendItems v =
      map (\<lambda>k. (k, Some (Num (length (filter (\<lambda>p. regime p = k) (map snd pol)))))) regimeKeys"
    by (rule trans)
  with v show ?thesis by blast
qed



text \<open>
  Claim C6, as stated, fails on what the peace bar shows: a status that no record has
  gets no row, by the filter \<open>conflicts[k].length > 0\<close>. On the example store no record
  is at war, and the breakdown has the rows of \<open>peace\<close> and \<open>tension\<close> only.
\<close>

theorem zero_count_status_has_no_row:
  "''war'' \<in> set statusKeys \<and>
   shownStatuses (peaceBarHtml exactArith exL exStore) = [''peace'', ''tension''] \<and>
   ''war'' \<notin> set (shownStatuses (peaceBarHtml exactArith exL exStore))"
proof -
  have "shownStatuses (peaceBarHtml exactArith exL exStore) = [''peace'', ''tension'']"
    by (simp add: shownStatuses_def ex_defs exL_def peaceBarHtml_def getAllPolitics_def
        getAllCountries_def conflictTally_def conflictPush_def conflicts_init_def statusKeys_def
        inheritedKeys_def idsOf_def statusRow_def getCountry_def Let_def)
  then show ?thesis by (simp add: statusKeys_def)
qed

text \<open>
  Claim C6, amended. For politics records whose conflict status is not the name of an
  inherited object property: the tallies keep a count for every member of their enum,
  also for a member that no record has (after the loops, \<open>conflicts\<close> holds under each
  of the five statuses the ids of the records with that status, the empty list when
  there is none, and \<open>regimes\<close> holds under each of the four regimes the number of
  records with that regime, 0 when there is none); the regime legend lists all four
  regimes with their counts, zero included; the peace breakdown has a row, with its
  count, exactly for the statuses that at least one record has, in the order of the
  enum, and none for a status whose count is zero.
\<close>

theorem counts_kept_for_every_member_rows_for_present_ones:
  assumes "\<forall>e\<in>set (politics st). conflict_status (snd e) \<notin> set inheritedKeys"
  shows
   "(\<exists>conflicts. conflictTally (politics st) = Inr conflicts \<and>
       (\<forall>k\<in>set statusKeys. map_of conflicts k =
          Some (map fst (filter (\<lambda>e. conflict_status (snd e) = k) (politics st))))) \<and>
    (\<forall>k\<in>set regimeKeys. map_of (fst (governanceTallies (map snd (politics st)))) k =
       Some (Num (length (filter (\<lambda>p. regime p = k) (map snd (politics st)))))) \<and>
    (politics st \<noteq> [] \<longrightarrow>
       (\<exists>v. governanceBarHtml A (politics st) = Rendered v \<and>
          legendItems v =
            map (\<lambda>k. (k, Some (Num (length (filter (\<lambda>p. regime p = k) (map snd (politics st)))))))
              regimeKeys)) \<and>
    (politics st \<noteq> [] \<longrightarrow>
       (\<exists>v. peaceBarHtml A L st = Inr (Rendered v) \<and>
          map (\<lambda>r. (st_key r, st_count r)) (statusItems v) =
            map (\<lambda>k. (k, length (filter (\<lambda>e. conflict_status (snd e) = k) (politics st))))
              (filter (\<lambda>k. \<exists>e\<in>set (politics st). conflict_status (snd e) = k) statusKeys)))"
proof (intro conjI impI)
  from conflictTally_ok [OF assms]
  show "\<exists>conflicts. conflictTally (politics st) = Inr conflicts \<and>
       (\<forall>k\<in>set statusKeys. map_of conflicts k =
          Some (map fst (filter (\<lambda>e. conflict_status (snd e) = k) (politics st))))"
    by blast
next
  show "\<forall>k\<in>set regimeKeys. map_of (fst (governanceTallies (map snd (politics st)))) k =
       Some (Num (length (filter (\<lambda>p. regime p = k) (map snd (politics st)))))"
    by (simp add: regime_count)
next
  assume "politics st \<noteq> []"
  then show "\<exists>v. governanceBarHtml A (politics st) = Rendered v \<and>
          legendItems v =
            map (\<lambda>k. (k, Some (Num (length (filter (\<lambda>p. regime p = k) (map snd (politics st)))))))
              regimeKeys"
    by (rule legend_counts)
next
  assume "politics st \<noteq> []"
  with assms show "\<exists>v. peaceBarHtml A L st = Inr (Rendered v) \<and>
          map (\<lambda>r. (st_key r, st_count r)) (statusItems v) =
            map (\<lambda>k. (k, length (filter (\<lambda>e. conflict_status (snd e) = k) (politics st))))
              (filter (\<lambda>k. \<exists>e\<in>set (politics st). conflict_status (snd e) = k) statusKeys)"
    by (rule peace_rows)
qed

theorem counts_kept_for_every_member_rows_for_present_ones_witness:
  "map_of (fst (governanceTallies (map snd (politics exStore)))) ''hybrid_regime'' = Some (Num 0) \<and>
   (\<exists>conflicts. conflictTally (politics exStore) = Inr conflicts \<and>
      map_of conflicts ''war'' = Some [] \<and> map_of conflicts ''peace'' = Some [''A'', ''C'', ''D'']) \<and>
   (\<exists>v. peaceBarHtml exactArith exL exStore = Inr (Rendered v) \<and>
      map (\<lambda>r. (st_key r, st_count r)) (statusItems v) = [(''peace'', 3), (''tension'', 1)])"
proof -
  have h: "\<forall>e\<in>set (politics exStore). conflict_status (snd e) \<notin> set inheritedKeys"
    by (simp add: ex_defs inheritedKeys_def)
  note T = counts_kept_for_every_member_rows_for_present_ones
    [OF h, where A = exactArith and L = exL]
  have ne: "politics exStore \<noteq> []"
    by (simp add: exStore_def)
  have "\<forall>k\<in>set regimeKeys. map_of (fst (governanceTallies (map snd (politics exStore)))) k =
       Some (Num (length (filter (\<lambda>p. regime p = k) (map snd (politics exStore)))))"
    by (rule T [THEN conjunct2, THEN conjunct1])
  then have r: "map_of (fst (governanceTallies (map snd (politics exStore)))) ''hybrid_regime'' =
      Some (Num 0)"
    by (simp add: regimeKeys_def ex_defs)
  from T [THEN conjunct1] obtain conflicts where
    c: "conflictTally (politics exStore) = Inr conflicts"
    and l: "\<forall>k\<in>set statusKeys. map_of conflicts k =
          Some (map fst (filter (\<lambda>e. conflict_status (snd e) = k) (politics exStore)))"
    by blast
  from l have "map_of conflicts ''war'' = Some []"
    "map_of conflicts ''peace'' = Some [''A'', ''C'', ''D'']"
    by (simp_all add: statusKeys_def ex_defs)
  with c have t: "\<exists>conflicts. conflictTally (politics exStore) = Inr conflicts \<and>
      map_of conflicts ''war'' = Some [] \<and> map_of conflicts ''peace'' = Some [''A'', ''C'', ''D'']"
    by (intro exI [of _ conflicts] conjI)
  from T [THEN conjunct2, THEN conjunct2, THEN conjunct2, rule_format, OF ne] obtain v where
    v: "peaceBarHtml exactArith exL exStore = Inr (Rendered v)"
    and rows: "map (\<lambda>r. (st_key r, st_count r)) (statusItems v) =
            map (\<lambda>k. (k, length (filter (\<lambda>e. conflict_status (snd e) = k) (politics exStore))))
              (filter (\<lambda>k. \<exists>e\<in>set (politics exStore). conflict_status (snd e) = k) statusKeys)"
    by blast
  from rows have rows2: "map (\<lambda>r. (st_key r, st_count r)) (statusItems v) =
      [(''peace'', 3), (''tension'', 1)]"
    by (simp add: statusKeys_def ex_defs)
  have p: "\<exists>v. peaceBarHtml exactArith exL exStore = Inr (Rendered v) \<and>
      map (\<lambda>r. (st_key r, st_count r)) (statusItems v) = [(''peace'', 3), (''tension'', 1)]"
    by (rule exI [of _ v], rule conjI [OF v rows2])
  from r t p show ?thesis by (intro conjI)
qed

text \<open>
  A status that names an inherited property ends the loop with an exception.
\<close>

lemma inherited_status_throws:
  "conflictTally [(''A'', exPol ''full_democracy'' ''constructor'')] = Inl TypeError"
  by (simp add: conflictTally_def conflictPush_def conflicts_init_def statusKeys_def exPol_def
      inheritedKeys_def)

text \<open>
  The exception ends \<open>renderPeaceBar\<close> before it writes its container, and
  \<open>renderIndex\<close> before the three render functions that follow.
\<close>

lemma renderIndex_stops_at_exception:
  assumes "peace_bar pg = Some old" and "peaceBarHtml A L (store pg) = Inl err"
  shows "snd (renderIndex A L pg) = Some err"
    and "global_econ_bar (fst (renderIndex A L pg)) = global_econ_bar pg"
    and "peace_bar (fst (renderIndex A L pg)) = Some old"
  using assms
  by (simp_all add: renderIndex_def renderPeaceBar_def renderGovernanceBar_def
      split: option.splits)

text \<open>The whole peace bar of the example store; the last record's country is unknown.\<close>

lemma peace_breakdown_example:
  "peaceBarHtml exactArith exL exStore =
   Inr (Rendered
     \<lparr>atPeace = 3, inConflict = 1, avgSecurity = Some 0, avgGovernance = Some 0,
      statusItems =
        [\<lparr>st_key = ''peace'', st_count = 3, st_names = [''A'', ''C'', ''D''], st_more = 0\<rparr>,
         \<lparr>st_key = ''tension'', st_count = 1, st_names = [''B''], st_more = 0\<rparr>]\<rparr>)"
  by (simp add: ex_defs exL_def peaceBarHtml_def getAllPolitics_def getAllCountries_def
      conflictTally_def conflictPush_def conflicts_init_def statusKeys_def inheritedKeys_def
      idsOf_def statusRow_def getCountry_def avgPillarInline_def Math_round_def reduceSum_def
      exactArith_def Let_def)

section \<open>Rankings and the country selector\<close>

lemma rankingBefore_consistent:
  assumes "consistent_on (getCountryName L ` set cs) (\<lambda>a b. localeCompare L a b (getLang L) \<le> 0)"
  shows "consistent_on (set (map (rankingEntry L pid) cs)) (rankingBefore L)"
proof -
  let ?N = "getCountryName L ` set cs"
  let ?le = "\<lambda>a b. localeCompare L a b (getLang L) \<le> 0"
  have names: "r_name e \<in> ?N" if "e \<in> set (map (rankingEntry L pid) cs)" for e
    using that by (auto simp: rankingEntry_def)
  have total: "rankingBefore L a b \<or> rankingBefore L b a"
    if "a \<in> set (map (rankingEntry L pid) cs)" "b \<in> set (map (rankingEntry L pid) cs)" for a b
  proof -
    have "?le (r_name a) (r_name b) \<or> ?le (r_name b) (r_name a)"
      by (rule consistent_total [OF assms names [OF that(1)] names [OF that(2)]])
    then show ?thesis
      unfolding rankingBefore_def by linarith
  qed
  have trans: "rankingBefore L a c"
    if "a \<in> set (map (rankingEntry L pid) cs)" "b \<in> set (map (rankingEntry L pid) cs)"
      "c \<in> set (map (rankingEntry L pid) cs)" "rankingBefore L a b" "rankingBefore L b c"
    for a b c
  proof -
    have "?le (r_name a) (r_name b) \<Longrightarrow> ?le (r_name b) (r_name c) \<Longrightarrow> ?le (r_name a) (r_name c)"
      by (rule consistent_trans [OF assms names [OF that(1)] names [OF that(2)] names [OF that(3)]])
    with that(4,5) show ?thesis
      unfolding rankingBefore_def by auto
  qed
  show ?thesis
    unfolding consistent_on_def using total trans by blast
qed

lemma selectorBefore_consistent:
  assumes "consistent_on (getCountryName L ` set cs) (\<lambda>a b. localeCompare L a b (getLang L) \<le> 0)"
  shows "consistent_on (set (map (selectorItem L) cs))
           (\<lambda>a b. localeCompare L (s_name a) (s_name b) (getLang L) \<le> 0)"
proof -
  have names: "s_name e \<in> getCountryName L ` set cs" if "e \<in> set (map (selectorItem L) cs)" for e
    using that by (auto simp: selectorItem_def)
  show ?thesis
    unfolding consistent_on_def
    using consistent_total [OF assms names names] consistent_trans [OF assms names names names]
    by blast
qed

lemma exL_consistent:
  "consistent_on (getCountryName exL ` set (countries exStoreNames))
     (\<lambda>a b. localeCompare exL a b (getLang exL) \<le> 0)"
  by (simp add: consistent_on_def exStoreNames_def exL_def exE_def exB_def exD_def foldCase_def)

text \<open>
  Claim C3. For every pillar id, or the sentinel \<open>overall\<close>, the ranking has one entry
  \<open>{id, name, score}\<close> per country (it is a rearrangement of the countries' entries,
  so its length is the number of countries); it is sorted by score, non-increasing,
  and entries of equal score are in ascending order of their localized names under
  the locale's collation; the score of an entry is \<open>overallScore\<close> of its country for
  \<open>overall\<close>, and otherwise the country's score for the pillar, 0 when it has none.
  The collation is assumed consistent on the names being compared.
\<close>

theorem getRanking_sorted:
  assumes "consistent_on (getCountryName L ` set (countries st))
             (\<lambda>a b. localeCompare L a b (getLang L) \<le> 0)"
  shows "length (getRanking L st pid) = length (countries st) \<and>
         mset (getRanking L st pid) = mset (map (rankingEntry L pid) (countries st)) \<and>
         sorted_wrt (\<lambda>a b. r_score b \<le> r_score a \<and>
                       (r_score a = r_score b \<longrightarrow>
                          localeCompare L (r_name a) (r_name b) (getLang L) \<le> 0))
           (getRanking L st pid) \<and>
         rankingEntry L pid c =
           \<lparr>r_id = c_id c, r_name = getCountryName L c,
            r_score = (if pid = ''overall'' then overallScore c
                       else case map_of (c_scores c) pid of None \<Rightarrow> 0 | Some v \<Rightarrow> v)\<rparr>"
proof -
  have len: "length (getRanking L st pid) = length (countries st)"
    by (simp add: getRanking_def length_sort_cmp)
  have perm: "mset (getRanking L st pid) = mset (map (rankingEntry L pid) (countries st))"
    by (simp add: getRanking_def mset_sort_cmp)
  have "sorted_wrt (rankingBefore L) (getRanking L st pid)"
    unfolding getRanking_def
    by (rule sorted_sort_cmp [OF rankingBefore_consistent [OF assms]])
  then have sorted: "sorted_wrt (\<lambda>a b. r_score b \<le> r_score a \<and>
                       (r_score a = r_score b \<longrightarrow>
                          localeCompare L (r_name a) (r_name b) (getLang L) \<le> 0))
           (getRanking L st pid)"
    by (rule sorted_wrt_mono_rel [rotated]) (auto simp: rankingBefore_def)
  have entry: "rankingEntry L pid c =
           \<lparr>r_id = c_id c, r_name = getCountryName L c,
            r_score = (if pid = ''overall'' then overallScore c
                       else case map_of (c_scores c) pid of None \<Rightarrow> 0 | Some v \<Rightarrow> v)\<rparr>"
    by (simp add: rankingEntry_def rankingScore_def)
  from len perm sorted entry show ?thesis by blast
qed

theorem getRanking_sorted_witness:
  "getRanking exL exStoreNames ''overall'' =
     [\<lparr>r_id = ''B'', r_name = ''B'', r_score = 85\<rparr>,
      \<lparr>r_id = ''D'', r_name = ''albania'', r_score = 70\<rparr>,
      \<lparr>r_id = ''E'', r_name = ''Zambia'', r_score = 70\<rparr>] \<and>
   length (getRanking exL exStoreNames ''overall'') = 3 \<and>
   sorted_wrt (\<lambda>a b. r_score b \<le> r_score a \<and>
                 (r_score a = r_score b \<longrightarrow>
                    localeCompare exL (r_name a) (r_name b) (getLang exL) \<le> 0))
     (getRanking exL exStoreNames ''overall'')"
proof -
  note T = getRanking_sorted [OF exL_consistent, where pid = "''overall''"]
  have "length (getRanking exL exStoreNames ''overall'') = length (countries exStoreNames)"
    using T by blast
  then have len: "length (getRanking exL exStoreNames ''overall'') = 3"
    by (simp add: exStoreNames_def)
  have sorted: "sorted_wrt (\<lambda>a b. r_score b \<le> r_score a \<and>
                 (r_score a = r_score b \<longrightarrow>
                    localeCompare exL (r_name a) (r_name b) (getLang exL) \<le> 0))
     (getRanking exL exStoreNames ''overall'')"
    using T by blast
  have "getRanking exL exStoreNames ''overall'' =
     [\<lparr>r_id = ''B'', r_name = ''B'', r_score = 85\<rparr>,
      \<lparr>r_id = ''D'', r_name = ''albania'', r_score = 70\<rparr>,
      \<lparr>r_id = ''E'', r_name = ''Zambia'', r_score = 70\<rparr>]"
    by (simp add: getRanking_def exStoreNames_def exL_def exE_def exB_def exD_def foldCase_def
        sort_cmp_def rankingEntry_def rankingScore_def rankingBefore_def overallScore_def
        mean_def Math_round_def)
  with len sorted show ?thesis by blast
qed

text \<open>The spec's worked example: \<open>ranking('overall') = [B(85), A(70)]\<close>.\<close>

lemma ranking_spec_example:
  "getRanking exL (exStore\<lparr>countries := [exA, exB]\<rparr>) ''overall'' =
     [\<lparr>r_id = ''B'', r_name = ''B'', r_score = 85\<rparr>,
      \<lparr>r_id = ''A'', r_name = ''A'', r_score = 70\<rparr>]"
  by (simp add: getRanking_def exL_def exA_def exB_def foldCase_def sort_cmp_def
      rankingEntry_def rankingScore_def rankingBefore_def overallScore_def mean_def
      Math_round_def)

text \<open>
  Claim C7. The list of the country selector is sorted ascending by the localized
  display names, compared by \<open>localeCompare\<close> in the active language (the collation of
  the locale, not the order of the code units): any earlier entry's name is less than
  or equal to any later entry's name under the collation, in particular for adjacent
  entries. The list has one item per country, with its id, name and overall score.
  The collation is assumed consistent on the names being compared.
\<close>

theorem selectorList_sorted_by_collation:
  assumes "consistent_on (getCountryName L ` set (countries st))
             (\<lambda>a b. localeCompare L a b (getLang L) \<le> 0)"
  shows "sorted_wrt (\<lambda>a b. localeCompare L (s_name a) (s_name b) (getLang L) \<le> 0)
           (selectorList L st) \<and>
         (\<forall>i. Suc i < length (selectorList L st) \<longrightarrow>
            localeCompare L (s_name (selectorList L st ! i))
              (s_name (selectorList L st ! Suc i)) (getLang L) \<le> 0) \<and>
         mset (selectorList L st) = mset (map (selectorItem L) (countries st)) \<and>
         selectorItem L c = \<lparr>s_id = c_id c, s_name = getCountryName L c, s_score = overallScore c\<rparr> \<and>
         (list_el \<noteq> None \<longrightarrow> renderList L st list_el = Some (selectorList L st))"
proof -
  have sorted: "sorted_wrt (\<lambda>a b. localeCompare L (s_name a) (s_name b) (getLang L) \<le> 0)
           (selectorList L st)"
    unfolding selectorList_def getAllCountries_def Let_def
    by (rule sorted_sort_cmp [OF selectorBefore_consistent [OF assms]])
  then have adj: "\<forall>i. Suc i < length (selectorList L st) \<longrightarrow>
            localeCompare L (s_name (selectorList L st ! i))
              (s_name (selectorList L st ! Suc i)) (getLang L) \<le> 0"
    by (simp add: sorted_wrt_iff_nth_less)
  have perm: "mset (selectorList L st) = mset (map (selectorItem L) (countries st))"
    by (simp add: selectorList_def getAllCountries_def mset_sort_cmp)
  have rl: "list_el \<noteq> None \<longrightarrow> renderList L st list_el = Some (selectorList L st)"
    by (auto simp: renderList_def)
  from sorted adj perm rl show ?thesis
    by (simp add: selectorItem_def)
qed

theorem selectorList_sorted_by_collation_witness:
  "selectorList exL exStoreNames =
     [\<lparr>s_id = ''D'', s_name = ''albania'', s_score = 70\<rparr>,
      \<lparr>s_id = ''B'', s_name = ''B'', s_score = 85\<rparr>,
      \<lparr>s_id = ''E'', s_name = ''Zambia'', s_score = 70\<rparr>] \<and>
   sorted_wrt (\<lambda>a b. localeCompare exL (s_name a) (s_name b) (getLang exL) \<le> 0)
     (selectorList exL exStoreNames) \<and>
   (of_char (CHR ''Z'') :: nat) < of_char (CHR ''a'')"
proof -
  have sorted: "sorted_wrt (\<lambda>a b. localeCompare exL (s_name a) (s_name b) (getLang exL) \<le> 0)
     (selectorList exL exStoreNames)"
    using selectorList_sorted_by_collation [OF exL_consistent] by blast
  have "selectorList exL exStoreNames =
     [\<lparr>s_id = ''D'', s_name = ''albania'', s_score = 70\<rparr>,
      \<lparr>s_id = ''B'', s_name = ''B'', s_score = 85\<rparr>,
      \<lparr>s_id = ''E'', s_name = ''Zambia'', s_score = 70\<rparr>]"
    by (simp add: selectorList_def getAllCountries_def exStoreNames_def exL_def exE_def exB_def
        exD_def foldCase_def sort_cmp_def selectorItem_def overallScore_def mean_def
        Math_round_def)
  with sorted show ?thesis by simp
qed

section \<open>Missing records\<close>

lemma getCountry_None_iff: "getCountry st k = None \<longleftrightarrow> k \<notin> c_id ` set (countries st)"
  by (auto simp: getCountry_def find_None_iff)

lemma getPillar_None_iff: "getPillar st k = None \<longleftrightarrow> k \<notin> p_id ` set (pillars st)"
  by (auto simp: getPillar_def find_None_iff)

lemma getEconomics_None_iff: "getEconomics st k = None \<longleftrightarrow> k \<notin> fst ` set (economics st)"
  by (simp add: getEconomics_def map_of_eq_None_iff)

lemma getPolitics_None_iff: "getPolitics st k = None \<longleftrightarrow> k \<notin> fst ` set (politics st)"
  by (simp add: getPolitics_def map_of_eq_None_iff)

lemma renderCountry_no_id: "renderCountry A L label st None (Some old) = Some NotFound"
  by (simp add: renderCountry_def countryHtml_def)

lemma renderCountry_unknown_id:
  "getCountry st k = None \<longrightarrow> renderCountry A L label st (Some k) (Some old) = Some NotFound"
  by (simp add: renderCountry_def countryHtml_def)

lemma dashboard_without_record:
  "getEconomics st (c_id c) = None \<longrightarrow> economicDashboardHtml A st c = Blank"
  by (simp add: economicDashboardHtml_def)

lemma renderCountry_without_economics:
  "getCountry st k = Some c \<longrightarrow> getEconomics st (c_id c) = None \<longrightarrow>
     (\<exists>v. renderCountry A L label st (Some k) (Some old) = Some (CountryPage v) \<and>
          cv_econ v = Blank)"
  by (simp add: renderCountry_def countryHtml_def Let_def economicDashboardHtml_def)

lemma renderPillar_unknown_pillar:
  "getPillar st (pillarPageId uid) = None \<longrightarrow>
     (\<exists>v. renderPillar L label st uid (Some old') = Some v \<and>
          pv_name_key v = ''ranking.all_pillars'' \<and> pv_desc_key v = None \<and>
          pv_sources v = None \<and> length (pv_rows v) = length (countries st))"
  by (simp add: renderPillar_def pillarHtml_def Let_def getRanking_def length_sort_cmp)

lemma statusRow_unknown_country:
  "getCountry st i = None \<longrightarrow> map_of conflicts s = Some [i] \<longrightarrow>
     st_names (statusRow L st conflicts s) = [i]"
  by (simp add: statusRow_def idsOf_def Let_def)

text \<open>
  Claim C8. A lookup for an id without a record returns the absent result (for each
  of the four lookups, exactly when no record has the id), and the callers turn it
  into output instead of failing: the country page of an unknown or missing id is
  the not-found message; the economic dashboard of a country without an economics
  record is empty, the rest of its page is drawn; the pillar page of an id that is no
  pillar is the ranking under the heading of all pillars, without description and
  sources; the peace bar names a record's country by its id when the country is
  unknown.
\<close>

theorem missing_record_is_absent_not_an_error:
  "(getCountry st k = None \<longleftrightarrow> k \<notin> c_id ` set (countries st)) \<and>
   (getPillar st k = None \<longleftrightarrow> k \<notin> p_id ` set (pillars st)) \<and>
   (getEconomics st k = None \<longleftrightarrow> k \<notin> fst ` set (economics st)) \<and>
   (getPolitics st k = None \<longleftrightarrow> k \<notin> fst ` set (politics st)) \<and>
   renderCountry A L label st None (Some old) = Some NotFound \<and>
   (getCountry st k = None \<longrightarrow>
      renderCountry A L label st (Some k) (Some old) = Some NotFound) \<and>
   (getCountry st k = Some c \<longrightarrow> getEconomics st (c_id c) = None \<longrightarrow>
      (\<exists>v. renderCountry A L label st (Some k) (Some old) = Some (CountryPage v) \<and>
           cv_econ v = Blank)) \<and>
   (getEconomics st (c_id c) = None \<longrightarrow> economicDashboardHtml A st c = Blank) \<and>
   (getPillar st (pillarPageId uid) = None \<longrightarrow>
      (\<exists>v. renderPillar L label st uid (Some old') = Some v \<and>
           pv_name_key v = ''ranking.all_pillars'' \<and> pv_desc_key v = None \<and>
           pv_sources v = None \<and> length (pv_rows v) = length (countries st))) \<and>
   (getCountry st i = None \<longrightarrow> map_of conflicts s = Some [i] \<longrightarrow>
      st_names (statusRow L st conflicts s) = [i])"
  by (intro conjI getCountry_None_iff getPillar_None_iff getEconomics_None_iff
      getPolitics_None_iff renderCountry_no_id renderCountry_unknown_id
      renderCountry_without_economics dashboard_without_record renderPillar_unknown_pillar
      statusRow_unknown_country)

theorem missing_record_is_absent_not_an_error_witness:
  "getCountry exStore ''X'' = None \<and>
   renderCountry exactArith exL (\<lambda>_. []) exStore (Some ''X'') (Some NotFound) = Some NotFound \<and>
   getEconomics exStore ''C'' = None \<and>
   (\<exists>v. renderCountry exactArith exL (\<lambda>_. []) exStore (Some ''C'') (Some NotFound) = Some (CountryPage v) \<and>
        cv_econ v = Blank)"
proof -
  note T = missing_record_is_absent_not_an_error [where st = exStore and L = exL
      and A = exactArith and label = "\<lambda>_. []" and old = NotFound]
  have x: "getCountry exStore ''X'' = None"
    by (simp add: getCountry_def ex_defs)
  with T [where k = "''X''"]
  have nf: "renderCountry exactArith exL (\<lambda>_. []) exStore (Some ''X'') (Some NotFound) = Some NotFound"
    by blast
  have c: "getCountry exStore ''C'' = Some exC" and e: "getEconomics exStore (c_id exC) = None"
    by (simp_all add: getCountry_def getEconomics_def ex_defs)
  with T [where k = "''C''" and c = exC]
  have "\<exists>v. renderCountry exactArith exL (\<lambda>_. []) exStore (Some ''C'') (Some NotFound) = Some (CountryPage v) \<and>
        cv_econ v = Blank"
    by blast
  moreover have "getEconomics exStore ''C'' = None"
    using e by (simp add: exC_def)
  ultimately show ?thesis using x nf by blast
qed

section \<open>The aggregations and the store\<close>















text \<open>
  The statement depends on what the code sorts. Had \<open>_renderList\<close> sorted the array it
  got from the store, not the copy \<open>map\<close> made, the store's order would have changed:
\<close>

lemma sorting_the_stores_array_would_reorder_it:
  "exHeap[0 := CountryArr (sort_cmp
      (\<lambda>a b. localeCompare exL (getCountryName exL a) (getCountryName exL b) (getLang exL) \<le> 0)
      (countryArr (exHeap ! 0)))] \<noteq> exHeap"
  by (simp add: exHeap_def exStoreNames_def exL_def exE_def exB_def exD_def foldCase_def
      sort_cmp_def)

end
